theory Spec2Isabelle
  imports Main
begin

section \<open>Python strings\<close>

text \<open>
  A Python \<open>str\<close> is a sequence of Unicode code points; \<open>len\<close>, slicing and
  \<open>strip\<close> all count code points. A string is therefore a list of code point
  numbers. ASCII literals of the source are written through \<open>lit\<close>.
\<close>

type_synonym pystr = "nat list"

definition lit :: "string \<Rightarrow> pystr" where
  "lit s = map of_char s"

text \<open>
  The characters \<open>str.strip()\<close> removes when called without an argument: the
  code points for which \<open>str.isspace\<close> holds.
\<close>

definition py_isspace :: "nat \<Rightarrow> bool" where
  "py_isspace c =
     ((9 \<le> c \<and> c \<le> 13) \<or> (28 \<le> c \<and> c \<le> 32) \<or> c = 133 \<or> c = 160 \<or>
      c = 5760 \<or> (8192 \<le> c \<and> c \<le> 8202) \<or> c = 8232 \<or> c = 8233 \<or>
      c = 8239 \<or> c = 8287 \<or> c = 12288)"

definition py_strip :: "pystr \<Rightarrow> pystr" where
  "py_strip s = rev (dropWhile py_isspace (rev (dropWhile py_isspace s)))"

definition startswith :: "pystr \<Rightarrow> pystr \<Rightarrow> bool" where
  "startswith s pfx = (take (length pfx) s = pfx)"

section \<open>The store\<close>

text \<open>
  DynamoDB attribute values as the code writes them. An item is a dictionary from
  attribute names to values; the table is keyed by the pair
  (\<open>userId\<close>, \<open>itineraryId\<close>), partition key and sort key.
\<close>

datatype attr =
    AStr pystr
  | ANull
  | ANum int
  | ABool bool
  | AList "attr list"
  | AMap "(pystr \<times> attr) list"

type_synonym item = "pystr \<rightharpoonup> attr"
type_synonym ddb_table = "(pystr \<times> pystr) \<rightharpoonup> item"

text \<open>
  Exceptions. \<open>ClientError\<close> is botocore's, carrying the error code of the
  response; every other exception class derived from \<open>Exception\<close> is
  \<open>OtherException\<close> with its class name.
\<close>

datatype exn = ClientError string | OtherException string

datatype level = DEBUG | INFO | WARNING | ERROR

text \<open>
  The state the functions work on: the table, and the lines written to the logger
  (level and the constant part of the message; interpolated values are left out).
  A function that returns nothing yields the exception it raises, if any, and the
  state it leaves.
\<close>

record state =
  tbl :: ddb_table
  logs :: "(level \<times> string) list"

definition log_to :: "level \<Rightarrow> string \<Rightarrow> state \<Rightarrow> state" where
  "log_to lv msg s = s\<lparr>logs := logs s @ [(lv, msg)]\<rparr>"

text \<open>
  The primary key of an item. An item whose key attributes are missing or are not
  strings is rejected by the store.
\<close>

definition item_key :: "item \<Rightarrow> (pystr \<times> pystr) option" where
  "item_key it =
     (case it (lit ''userId'') of
        Some (AStr u) \<Rightarrow>
          (case it (lit ''itineraryId'') of
             Some (AStr k) \<Rightarrow> Some (u, k)
           | _ \<Rightarrow> None)
      | _ \<Rightarrow> None)"

text \<open>
  \<open>table.put_item(Item=it, ConditionExpression="attribute_not_exists(itineraryId)")\<close>.
  The argument \<open>fault\<close> is the environment: \<open>Some e\<close> when the call fails for a
  reason of the store's own (throttling, network, validation), \<open>None\<close> when the
  store serves the call. A served call is rejected with
  \<open>ConditionalCheckFailedException\<close> when an item with the same key exists, and
  writes the item otherwise.
\<close>

definition put_item_if_absent :: "exn option \<Rightarrow> ddb_table \<Rightarrow> item \<Rightarrow> exn + ddb_table" where
  "put_item_if_absent fault t it =
     (case fault of
        Some e \<Rightarrow> Inl e
      | None \<Rightarrow>
          (case item_key it of
             None \<Rightarrow> Inl (ClientError ''ValidationException'')
           | Some k \<Rightarrow>
               (if t k \<noteq> None then Inl (ClientError ''ConditionalCheckFailedException'')
                else Inr (t(k \<mapsto> it)))))"

text \<open>
  \<open>table.update_item(Key=..., UpdateExpression="SET ...")\<close>: the SET actions
  \<open>upd\<close> are applied to the item under the key, or, when there is none, to a new
  item holding only the key attributes (an update is an upsert). No condition is
  evaluated.
\<close>

definition key_item :: "pystr \<times> pystr \<Rightarrow> item" where
  "key_item k = [lit ''userId'' \<mapsto> AStr (fst k), lit ''itineraryId'' \<mapsto> AStr (snd k)]"

definition update_item ::
  "exn option \<Rightarrow> ddb_table \<Rightarrow> pystr \<times> pystr \<Rightarrow> (item \<Rightarrow> exn + item) \<Rightarrow> exn + ddb_table" where
  "update_item fault t k upd =
     (case fault of
        Some e \<Rightarrow> Inl e
      | None \<Rightarrow>
          (case upd (case t k of Some it \<Rightarrow> it | None \<Rightarrow> key_item k) of
             Inl e \<Rightarrow> Inl e
           | Inr it' \<Rightarrow> Inr (t(k \<mapsto> it'))))"

section \<open>jobs.py\<close>

definition JOB_SK_PREFIX :: pystr where
  "JOB_SK_PREFIX = lit ''job#''"

definition job_sk :: "pystr \<Rightarrow> pystr" where
  "job_sk request_id = JOB_SK_PREFIX @ request_id"

text \<open>
  \<open>create_job\<close>. \<open>started\<close> and \<open>updated\<close> are the two readings of
  \<open>iso_now()\<close>. \<open>meta\<close> and \<open>job_id\<close> are optional and are stored only when
  truthy (a non-empty dictionary, a non-empty string).
\<close>

definition job_item ::
  "pystr \<Rightarrow> pystr \<Rightarrow> (pystr \<times> attr) list option \<Rightarrow> pystr option \<Rightarrow> pystr \<Rightarrow> pystr \<Rightarrow> item" where
  "job_item user_id request_id meta job_id started updated =
     (let item0 = [lit ''userId'' \<mapsto> AStr user_id,
                   lit ''itineraryId'' \<mapsto> AStr (job_sk request_id),
                   lit ''type'' \<mapsto> AStr (lit ''job''),
                   lit ''status'' \<mapsto> AStr (lit ''RUNNING''),
                   lit ''startedAt'' \<mapsto> AStr started,
                   lit ''updatedAt'' \<mapsto> AStr updated,
                   lit ''progress'' \<mapsto> AList []];
          item1 = (case meta of
                     Some (m # ms) \<Rightarrow> item0(lit ''meta'' \<mapsto> AMap (m # ms))
                   | _ \<Rightarrow> item0);
          item2 = (case job_id of
                     Some (c # cs) \<Rightarrow> item1(lit ''runtimeJobId'' \<mapsto> AStr (c # cs))
                   | _ \<Rightarrow> item1)
      in item2)"

definition create_job ::
  "exn option \<Rightarrow> pystr \<Rightarrow> pystr \<Rightarrow> state \<Rightarrow> pystr \<Rightarrow> pystr \<Rightarrow>
   (pystr \<times> attr) list option \<Rightarrow> pystr option \<Rightarrow> exn option \<times> state" where
  "create_job fault started updated s user_id request_id meta job_id =
     (case put_item_if_absent fault (tbl s)
             (job_item user_id request_id meta job_id started updated) of
        Inr t' \<Rightarrow> (None, log_to INFO ''[job] created'' (s\<lparr>tbl := t'\<rparr>))
      | Inl (ClientError code) \<Rightarrow>
          (if code = ''ConditionalCheckFailedException''
           then (None, log_to INFO ''[job] already exists'' s)
           else (Some (ClientError code), log_to ERROR ''[job] create_job error'' s))
      | Inl e \<Rightarrow> (Some e, s))"

text \<open>
  The reading of the local clock that \<open>time.strftime('%H:%M:%S')\<close> formats:
  hours 0 to 23, minutes 0 to 59, seconds 0 to 61, each printed with two digits.
\<close>

record struct_time =
  tm_hour :: nat
  tm_min :: nat
  tm_sec :: nat

definition two_digits :: "nat \<Rightarrow> pystr" where
  "two_digits n = [48 + n div 10 mod 10, 48 + n mod 10]"

definition strftime_HMS :: "struct_time \<Rightarrow> pystr" where
  "strftime_HMS tm =
     two_digits (tm_hour tm) @ lit '':'' @ two_digits (tm_min tm) @ lit '':'' @
     two_digits (tm_sec tm)"

text \<open>
  Lines 50 to 54 of \<open>append_progress\<close>: \<open>(line or "").strip()\<close>, the early
  return on an empty line (\<open>None\<close>), and the cap at 600 with the marker.
\<close>

definition capped_line :: "pystr option \<Rightarrow> pystr option" where
  "capped_line line =
     (let l = py_strip (case line of None \<Rightarrow> [] | Some x \<Rightarrow> x)
      in if l = [] then None
         else if length l > 600 then Some (take 600 l @ lit '' ...'')
         else Some l)"

text \<open>
  The update expression of \<open>append_progress\<close>:
  \<open>SET #p = list_append(if_not_exists(#p, :empty), :line), updatedAt = :t\<close>.
  \<open>list_append\<close> on an attribute that is not a list is a validation error.
\<close>

definition append_progress_update :: "pystr \<Rightarrow> pystr \<Rightarrow> item \<Rightarrow> exn + item" where
  "append_progress_update entry t it =
     (case it (lit ''progress'') of
        None \<Rightarrow>
          Inr (it(lit ''progress'' \<mapsto> AList ([] @ [AStr entry]), lit ''updatedAt'' \<mapsto> AStr t))
      | Some (AList xs) \<Rightarrow>
          Inr (it(lit ''progress'' \<mapsto> AList (xs @ [AStr entry]), lit ''updatedAt'' \<mapsto> AStr t))
      | Some _ \<Rightarrow> Inl (ClientError ''ValidationException''))"

text \<open>The body of the \<open>try\<close> of \<open>append_progress\<close>.\<close>

definition append_progress_try ::
  "exn option \<Rightarrow> struct_time \<Rightarrow> pystr \<Rightarrow> state \<Rightarrow> pystr \<Rightarrow> pystr \<Rightarrow> pystr option \<Rightarrow>
   exn option \<times> state" where
  "append_progress_try fault tm now s user_id request_id line =
     (case capped_line line of
        None \<Rightarrow> (None, s)
      | Some l \<Rightarrow>
          (case update_item fault (tbl s) (user_id, job_sk request_id)
                  (append_progress_update (strftime_HMS tm @ lit ''  '' @ l) now) of
             Inl e \<Rightarrow> (Some e, s)
           | Inr t' \<Rightarrow> (None, s\<lparr>tbl := t'\<rparr>)))"

text \<open>
  \<open>append_progress\<close>: \<open>except Exception\<close> around the whole body, which logs and
  returns.
\<close>

definition append_progress ::
  "exn option \<Rightarrow> struct_time \<Rightarrow> pystr \<Rightarrow> state \<Rightarrow> pystr \<Rightarrow> pystr \<Rightarrow> pystr option \<Rightarrow>
   exn option \<times> state" where
  "append_progress fault tm now s user_id request_id line =
     (case append_progress_try fault tm now s user_id request_id line of
        (Some e, s') \<Rightarrow> (None, log_to ERROR ''[job] append_progress error'' s')
      | (None, s') \<Rightarrow> (None, s'))"

text \<open>
  The update expression \<open>complete_job\<close> builds: status, completedAt and updatedAt
  always; finalMessage (cut at 180000) and resultItineraryId only when the
  argument is truthy.
\<close>

definition complete_job_update ::
  "pystr \<Rightarrow> pystr \<Rightarrow> pystr option \<Rightarrow> pystr option \<Rightarrow> item \<Rightarrow> exn + item" where
  "complete_job_update status t final_message itinerary_id it =
     (let it1 = it(lit ''status'' \<mapsto> AStr status, lit ''completedAt'' \<mapsto> AStr t,
                   lit ''updatedAt'' \<mapsto> AStr t);
          it2 = (case final_message of
                   Some (c # cs) \<Rightarrow> it1(lit ''finalMessage'' \<mapsto> AStr (take 180000 (c # cs)))
                 | _ \<Rightarrow> it1);
          it3 = (case itinerary_id of
                   Some (c # cs) \<Rightarrow> it2(lit ''resultItineraryId'' \<mapsto> AStr (c # cs))
                 | _ \<Rightarrow> it2)
      in Inr it3)"

definition complete_job_try ::
  "exn option \<Rightarrow> pystr \<Rightarrow> state \<Rightarrow> pystr \<Rightarrow> pystr \<Rightarrow> pystr \<Rightarrow> pystr option \<Rightarrow> pystr option \<Rightarrow>
   exn option \<times> state" where
  "complete_job_try fault now s user_id request_id status final_message itinerary_id =
     (case update_item fault (tbl s) (user_id, job_sk request_id)
             (complete_job_update status now final_message itinerary_id) of
        Inl e \<Rightarrow> (Some e, s)
      | Inr t' \<Rightarrow> (None, log_to INFO ''[job] completed'' (s\<lparr>tbl := t'\<rparr>)))"

definition complete_job ::
  "exn option \<Rightarrow> pystr \<Rightarrow> state \<Rightarrow> pystr \<Rightarrow> pystr \<Rightarrow> pystr \<Rightarrow> pystr option \<Rightarrow> pystr option \<Rightarrow>
   exn option \<times> state" where
  "complete_job fault now s user_id request_id status final_message itinerary_id =
     (case complete_job_try fault now s user_id request_id status final_message itinerary_id of
        (Some e, s') \<Rightarrow> (None, log_to ERROR ''[job] complete_job error'' s')
      | (None, s') \<Rightarrow> (None, s'))"

text \<open>
  \<open>JobProgressHandler\<close>: the handler's fields, and \<open>emit\<close> on the formatted
  message of a log record.
\<close>

record job_progress_handler =
  h_user_id :: pystr
  h_request_id :: pystr

definition progress_prefixes :: "pystr list" where
  "progress_prefixes = [lit ''STATUS:'', lit ''TOOL:'', lit ''TOOL_RESULT:'', lit ''Tool #'']"

definition emit ::
  "exn option \<Rightarrow> struct_time \<Rightarrow> pystr \<Rightarrow> job_progress_handler \<Rightarrow> state \<Rightarrow> pystr \<Rightarrow>
   exn option \<times> state" where
  "emit fault tm now h s msg =
     (if list_ex (startswith msg) progress_prefixes
      then append_progress fault tm now s (h_user_id h) (h_request_id h) (Some msg)
      else (None, s))"

section \<open>ddb_tools.py\<close>

text \<open>Python truth value of a stored value, as \<open>or\<close> and \<open>if\<close> test it.\<close>

definition truthy :: "attr \<Rightarrow> bool" where
  "truthy v =
     (case v of
        AStr x \<Rightarrow> x \<noteq> []
      | ANull \<Rightarrow> False
      | ANum n \<Rightarrow> n \<noteq> 0
      | ABool b \<Rightarrow> b
      | AList xs \<Rightarrow> xs \<noteq> []
      | AMap kvs \<Rightarrow> kvs \<noteq> [])"

text \<open>
  A value inside an f-string: a string stands for itself; any other value is
  printed by Python's \<open>str\<close>, a parameter \<open>str_of\<close> of the model.
\<close>

definition fmt :: "(attr \<Rightarrow> pystr) \<Rightarrow> attr \<Rightarrow> pystr" where
  "fmt str_of v = (case v of AStr x \<Rightarrow> x | _ \<Rightarrow> str_of v)"

definition setdefault :: "item \<Rightarrow> pystr \<Rightarrow> attr \<Rightarrow> item" where
  "setdefault d k v = (if d k = None then d(k \<mapsto> v) else d)"

text \<open>
  \<open>_ensure_itinerary_shape\<close>. \<open>fresh_uuid4\<close> is the value of
  \<open>str(uuid.uuid4())\<close>, drawn at every call whether or not it is kept.
\<close>

definition ensure_itinerary_shape :: "pystr \<Rightarrow> item option \<Rightarrow> item" where
  "ensure_itinerary_shape fresh_uuid4 itinerary =
     (let it0 = (case itinerary of None \<Rightarrow> Map.empty | Some d \<Rightarrow> d);
          it1 = setdefault it0 (lit ''itineraryId'') (AStr fresh_uuid4);
          it2 = setdefault it1 (lit ''destination'') (AStr []);
          it3 = setdefault it2 (lit ''startDate'') (AStr []);
          it4 = setdefault it3 (lit ''endDate'') (AStr []);
          it5 = setdefault it4 (lit ''items'') (AList []);
          it6 = setdefault it5 (lit ''sources'') (AList [])
      in it6)"

text \<open>
  \<open>_stable_itinerary_id\<close>. \<open>uuid5\<close> stands for
  \<open>\<lambda>name. str(uuid.uuid5(uuid.NAMESPACE_URL, name))\<close>, a function of the name.
\<close>

definition stable_itinerary_id ::
  "(pystr \<Rightarrow> pystr) \<Rightarrow> pystr \<Rightarrow> pystr \<Rightarrow> pystr \<Rightarrow> pystr \<Rightarrow> pystr \<Rightarrow> pystr" where
  "stable_itinerary_id uuid5 user destination start end' request =
     (let base = (if request \<noteq> [] then request
                  else user @ lit ''|'' @ destination @ lit ''|'' @ start @ lit ''|'' @ end')
      in uuid5 (lit ''agentcore-poc:'' @ base))"

definition get_or :: "item \<Rightarrow> pystr \<Rightarrow> attr \<Rightarrow> attr" where
  "get_or d k dflt = (case d k of None \<Rightarrow> dflt | Some v \<Rightarrow> v)"

text \<open>
  \<open>save_itinerary\<close>: the result is the returned string or the exception raised,
  with the state left.
\<close>

definition save_itinerary ::
  "(pystr \<Rightarrow> pystr) \<Rightarrow> (attr \<Rightarrow> pystr) \<Rightarrow> pystr \<Rightarrow> pystr \<Rightarrow> exn option \<Rightarrow> state \<Rightarrow>
   pystr \<Rightarrow> item option \<Rightarrow> pystr \<Rightarrow> (exn + pystr) \<times> state" where
  "save_itinerary uuid5 str_of fresh_uuid4 now fault s userId itinerary requestId =
     (let it0 = ensure_itinerary_shape fresh_uuid4 itinerary;
          it1 = it0(lit ''userId'' \<mapsto> AStr userId);
          iid = (if truthy (get_or it1 (lit ''itineraryId'') ANull)
                 then get_or it1 (lit ''itineraryId'') ANull
                 else AStr (stable_itinerary_id uuid5 userId
                        (fmt str_of (get_or it1 (lit ''destination'') (AStr [])))
                        (fmt str_of (get_or it1 (lit ''startDate'') (AStr [])))
                        (fmt str_of (get_or it1 (lit ''endDate'') (AStr [])))
                        requestId));
          it2 = it1(lit ''itineraryId'' \<mapsto> iid);
          it3 = it2(lit ''createdAt'' \<mapsto> AStr now);
          s1 = log_to INFO ''[tool] save_itinerary'' s
      in case put_item_if_absent fault (tbl s1) it3 of
           Inr t' \<Rightarrow>
             (Inr (lit ''saved:'' @ fmt str_of iid),
              log_to INFO ''[tool] save_itinerary -> saved'' (s1\<lparr>tbl := t'\<rparr>))
         | Inl (ClientError code) \<Rightarrow>
             (if code = ''ConditionalCheckFailedException''
              then (Inr (lit ''duplicate:'' @ fmt str_of iid),
                    log_to INFO ''[tool] save_itinerary -> duplicate'' s1)
              else (Inl (ClientError code), log_to ERROR ''[tool] save_itinerary error'' s1))
         | Inl e \<Rightarrow> (Inl e, s1))"

section \<open>config.py\<close>

record config =
  GATEWAY_URL :: pystr
  GATEWAY_ACCESS_TOKEN :: pystr
  COGNITO_TOKEN_URL :: pystr
  COGNITO_CLIENT_ID :: pystr
  COGNITO_CLIENT_SECRET :: pystr
  COGNITO_SCOPE :: pystr

text \<open>
  The process-wide \<open>_token_cache\<close> with the logger, and a counter of the POST
  requests sent to the token endpoint (kept by the model only, to count network
  calls). Times are \<open>int(time.time())\<close>, whole seconds.
\<close>

record gateway_state =
  access_token :: "pystr option"
  exp :: int
  mint_requests :: nat
  gw_logs :: "(level \<times> string) list"

definition gw_log :: "level \<Rightarrow> string \<Rightarrow> gateway_state \<Rightarrow> gateway_state" where
  "gw_log lv msg g = g\<lparr>gw_logs := gw_logs g @ [(lv, msg)]\<rparr>"

text \<open>
  What the token endpoint answers to one POST. \<open>PostFailed\<close>: \<open>requests.post\<close> or
  \<open>raise_for_status\<close> raised. \<open>BodyMalformed\<close>: the status was good and
  \<open>resp.json()\<close> raises, or its value is no dictionary. \<open>Payload tok ex\<close>: a
  dictionary with \<open>access_token\<close> (\<open>None\<close> when absent or null) and
  \<open>expires_in\<close>: absent, a value \<open>int\<close> converts, or one it rejects.
\<close>

datatype expires_in = Absent | Seconds int | NotANumber

datatype token_response = PostFailed | BodyMalformed | Payload "pystr option" expires_in

definition mint_cognito_token ::
  "config \<Rightarrow> token_response \<Rightarrow> int \<Rightarrow> gateway_state \<Rightarrow> (exn + pystr) \<times> gateway_state" where
  "mint_cognito_token cfg resp mint_now g =
     (if \<not> (COGNITO_TOKEN_URL cfg \<noteq> [] \<and> COGNITO_CLIENT_ID cfg \<noteq> [] \<and>
             COGNITO_CLIENT_SECRET cfg \<noteq> [])
      then (Inr [], g)
      else
        (let g1 = g\<lparr>mint_requests := mint_requests g + 1\<rparr> in
         case resp of
           PostFailed \<Rightarrow>
             (Inr [], gw_log WARNING ''[gateway] failed to mint token via Cognito'' g1)
         | BodyMalformed \<Rightarrow> (Inl (OtherException ''JSONDecodeError''), g1)
         | Payload tok ex \<Rightarrow>
             (let g2 = g1\<lparr>access_token := tok\<rparr> in
              case ex of
                NotANumber \<Rightarrow> (Inl (OtherException ''ValueError''), g2)
              | Absent \<Rightarrow>
                  (Inr (case tok of None \<Rightarrow> [] | Some t \<Rightarrow> t), g2\<lparr>exp := mint_now + 300 - 30\<rparr>)
              | Seconds n \<Rightarrow>
                  (Inr (case tok of None \<Rightarrow> [] | Some t \<Rightarrow> t), g2\<lparr>exp := mint_now + n - 30\<rparr>))))"

text \<open>
  \<open>get_gateway_access_token\<close>. \<open>now\<close> is its own reading of the clock,
  \<open>mint_now\<close> the one \<open>_mint_cognito_token\<close> takes after the answer.
\<close>

definition get_gateway_access_token ::
  "config \<Rightarrow> token_response \<Rightarrow> int \<Rightarrow> int \<Rightarrow> gateway_state \<Rightarrow> (exn + pystr) \<times> gateway_state" where
  "get_gateway_access_token cfg resp now mint_now g =
     (if GATEWAY_ACCESS_TOKEN cfg \<noteq> [] then (Inr (GATEWAY_ACCESS_TOKEN cfg), g)
      else
        (case access_token g of
           Some (c # cs) \<Rightarrow>
             (if now < exp g then (Inr (c # cs), g)
              else mint_cognito_token cfg resp mint_now g)
         | _ \<Rightarrow> mint_cognito_token cfg resp mint_now g))"

section \<open>agent_builder.py\<close>

text \<open>
  \<open>_mcp_client_or_none\<close>. \<open>libs\<close> says whether \<open>MCPClient\<close> and
  \<open>streamablehttp_client\<close> were imported. The client is represented by the
  bearer token it is built with; building it makes no call.
\<close>

definition mcp_client_or_none ::
  "bool \<Rightarrow> config \<Rightarrow> token_response \<Rightarrow> int \<Rightarrow> int \<Rightarrow> gateway_state \<Rightarrow>
   (exn + pystr option) \<times> gateway_state" where
  "mcp_client_or_none libs cfg resp now mint_now g =
     (if \<not> libs
      then (Inr None, gw_log DEBUG ''[gateway] MCP libraries unavailable; cannot create client'' g)
      else if GATEWAY_URL cfg = []
      then (Inr None, gw_log DEBUG ''[gateway] GATEWAY_URL unset; skipping gateway tools'' g)
      else
        (case get_gateway_access_token cfg resp now mint_now
                (gw_log DEBUG ''[gateway] preparing MCP client'' g) of
           (Inl e, g') \<Rightarrow> (Inl e, g')
         | (Inr token, g') \<Rightarrow>
             (if token = []
              then (Inr None,
                    gw_log WARNING
                      ''[gateway] no access token available; proceeding without gateway tools'' g')
              else (Inr (Some token),
                    gw_log DEBUG ''[gateway] MCP client instantiated successfully'' g'))))"

text \<open>
  A tool descriptor as the loops read it. \<open>getattr(t, "tool_name", None)\<close> is a
  string or something else (also when the attribute is missing).
  \<open>getattr(t, "tool_spec", {}) or {}\<close> is the empty dictionary when the attribute
  is missing or falsy, a dictionary, or a truthy value without \<open>get\<close>.
\<close>

datatype tool_name_attr = NameStr pystr | NameOther

datatype tool_spec_attr = SpecFalsy | SpecDict item | SpecOther

record tool_desc =
  tool_name :: tool_name_attr
  tool_spec :: tool_spec_attr

text \<open>The proxy \<open>_wrap_mcp_tool\<close> returns, by what it was decorated with.\<close>

record gateway_proxy =
  proxy_name :: pystr
  proxy_description :: attr
  proxy_schema :: attr

definition py_or :: "attr \<Rightarrow> attr \<Rightarrow> attr" where
  "py_or a b = (if truthy a then a else b)"

text \<open>
  \<open>_wrap_mcp_tool\<close>. The decorator \<open>tool(name=..., description=...,
  inputSchema=...)\<close> is the library's: \<open>decorator\<close> gives the exception it
  raises on these arguments, if any.
\<close>

definition wrap_mcp_tool ::
  "(pystr \<Rightarrow> attr \<Rightarrow> attr \<Rightarrow> exn option) \<Rightarrow> pystr \<Rightarrow> attr \<Rightarrow> attr \<Rightarrow> exn + gateway_proxy" where
  "wrap_mcp_tool decorator name schema description =
     (let schema' = py_or schema
            (AMap [(lit ''type'', AStr (lit ''object'')), (lit ''properties'', AMap [])]);
          description' = py_or description (AStr (lit ''MCP tool proxy for '' @ name))
      in case decorator name description' schema' of
           Some e \<Rightarrow> Inl e
         | None \<Rightarrow>
             Inr \<lparr>proxy_name = name, proxy_description = description', proxy_schema = schema'\<rparr>)"

text \<open>
  The body of the \<open>try\<close> inside the second loop of \<open>discover_gateway_tools\<close>:
  \<open>Inr None\<close> is the \<open>continue\<close>.
\<close>

definition wrap_desc ::
  "(pystr \<Rightarrow> attr \<Rightarrow> attr \<Rightarrow> exn option) \<Rightarrow> tool_desc \<Rightarrow> exn + gateway_proxy option" where
  "wrap_desc decorator t =
     (case tool_name t of
        NameOther \<Rightarrow> Inr None
      | NameStr name \<Rightarrow>
          (case tool_spec t of
             SpecOther \<Rightarrow> Inl (OtherException ''AttributeError'')
           | sp \<Rightarrow>
               (let spec = (case sp of SpecDict d \<Rightarrow> d | _ \<Rightarrow> Map.empty);
                    schema = py_or (get_or spec (lit ''inputSchema'') ANull)
                               (get_or spec (lit ''input_schema'') ANull);
                    description = get_or spec (lit ''description'') ANull
                in case wrap_mcp_tool decorator name schema description of
                     Inl e \<Rightarrow> Inl e
                   | Inr w \<Rightarrow> Inr (Some w))))"

text \<open>The second loop, with its \<open>except Exception\<close> around each descriptor.\<close>

fun wrap_tools ::
  "(pystr \<Rightarrow> attr \<Rightarrow> attr \<Rightarrow> exn option) \<Rightarrow> tool_desc list \<Rightarrow> gateway_proxy list \<Rightarrow>
   gateway_state \<Rightarrow> gateway_proxy list \<times> gateway_state" where
  "wrap_tools decorator [] wrapped g = (wrapped, g)"
| "wrap_tools decorator (t # ts) wrapped g =
     (case wrap_desc decorator t of
        Inr None \<Rightarrow> wrap_tools decorator ts wrapped g
      | Inr (Some w) \<Rightarrow>
          wrap_tools decorator ts (wrapped @ [w]) (gw_log DEBUG ''[gateway] wrapped MCP tool'' g)
      | Inl e \<Rightarrow> wrap_tools decorator ts wrapped (gw_log ERROR ''[gateway] failed to wrap tool'' g))"

text \<open>
  What the gateway answers to the listing: \<open>ListFailed\<close> when anything inside the
  \<open>try\<close> raised, \<open>Listed tools\<close> with the value of \<open>list_tools_sync()\<close>
  (\<open>None\<close> for Python's \<open>None\<close>).
\<close>

datatype listing = ListFailed | Listed "tool_desc list option"

definition tool_names :: "tool_desc list \<Rightarrow> pystr list" where
  "tool_names ts = concat (map (\<lambda>t. case tool_name t of NameStr n \<Rightarrow> [n] | NameOther \<Rightarrow> []) ts)"

definition discover_gateway_tools ::
  "bool \<Rightarrow> config \<Rightarrow> token_response \<Rightarrow> int \<Rightarrow> int \<Rightarrow> listing \<Rightarrow>
   (pystr \<Rightarrow> attr \<Rightarrow> attr \<Rightarrow> exn option) \<Rightarrow> gateway_state \<Rightarrow>
   (exn + gateway_proxy list) \<times> gateway_state" where
  "discover_gateway_tools libs cfg resp now mint_now lst decorator g =
     (case mcp_client_or_none libs cfg resp now mint_now
             (gw_log DEBUG ''[gateway] attempting to discover available tools'' g) of
        (Inl e, g1) \<Rightarrow> (Inl e, g1)
      | (Inr None, g1) \<Rightarrow>
          (Inr [], gw_log DEBUG ''[gateway] MCP client unavailable; returning no extra tools'' g1)
      | (Inr (Some client), g1) \<Rightarrow>
          (case lst of
             ListFailed \<Rightarrow> (Inr [], gw_log ERROR ''[gateway] failed to list tools'' g1)
           | Listed tools \<Rightarrow>
               (let ts = (case tools of None \<Rightarrow> [] | Some x \<Rightarrow> x);
                    g2 = gw_log DEBUG ''[gateway] list_tools_sync returned'' g1;
                    g3 = (if tool_names ts \<noteq> []
                          then gw_log INFO ''[gateway] tools discovered'' g2
                          else gw_log INFO ''[gateway] list_tools_sync returned no named tools'' g2)
                in case wrap_tools decorator ts [] g3 of
                     (wrapped, g4) \<Rightarrow> (Inr wrapped, g4))))"

section \<open>Auxiliary facts\<close>

lemma lit_eq_iff [simp]: "(lit a = lit b) = (a = b)"
proof -
  have "inj (of_char :: char \<Rightarrow> nat)"
    by (rule injI) simp
  then show ?thesis
    unfolding lit_def by (rule inj_map_eq_map)
qed

lemma length_lit [simp]: "length (lit a) = length a"
  by (simp add: lit_def)

lemma tbl_log_to [simp]: "tbl (log_to lv m s) = tbl s"
  by (simp add: log_to_def)


lemma py_strip_keeps:
  assumes "x \<noteq> []" and "\<not> py_isspace (hd x)"
  shows "py_strip x \<noteq> []"
proof -
  from assms have d: "dropWhile py_isspace x = x"
    by (cases x) simp_all
  from assms have "hd x \<in> set (rev x)"
    by simp
  with assms(2) have "dropWhile py_isspace (rev x) \<noteq> []"
    by auto
  with d show ?thesis
    by (simp add: py_strip_def)
qed



lemma item_key_job_item: "item_key (job_item u r m j t1 t2) = Some (u, job_sk r)"
  by (simp add: item_key_def job_item_def Let_def split: option.splits list.splits)

lemma job_item_status: "job_item u r m j t1 t2 (lit ''status'') = Some (AStr (lit ''RUNNING''))"
  by (simp add: job_item_def Let_def split: option.splits list.splits)

lemma create_job_served:
  "create_job None t1 t2 s u r m j =
     (case tbl s (u, job_sk r) of
        Some it \<Rightarrow> (None, log_to INFO ''[job] already exists'' s)
      | None \<Rightarrow> (None, log_to INFO ''[job] created''
                 (s\<lparr>tbl := (tbl s)((u, job_sk r) \<mapsto> job_item u r m j t1 t2)\<rparr>)))"
  by (simp add: create_job_def put_item_if_absent_def item_key_job_item split: option.splits)

lemma append_progress_dropped:
  "capped_line line = None \<Longrightarrow> append_progress fault tm now s u r line = (None, s)"
  by (simp add: append_progress_def append_progress_try_def)

lemma append_progress_served:
  assumes "capped_line line = Some c"
    and "old = (case tbl s (u, job_sk r) of Some it \<Rightarrow> it | None \<Rightarrow> key_item (u, job_sk r))"
    and "old (lit ''progress'') = Some (AList xs) \<or> old (lit ''progress'') = None \<and> xs = []"
  shows "append_progress None tm now s u r line =
     (None, s\<lparr>tbl := (tbl s)((u, job_sk r) \<mapsto>
        old(lit ''progress'' \<mapsto> AList (xs @ [AStr (strftime_HMS tm @ lit ''  '' @ c)]),
            lit ''updatedAt'' \<mapsto> AStr now))\<rparr>)"
  using assms
  by (auto simp: append_progress_def append_progress_try_def update_item_def
      append_progress_update_def)


section \<open>The job record\<close>

text \<open>
  C3. Two calls of \<open>create_job\<close> for the same (user, request), both served by
  the store, both return without an exception; the second leaves the table as
  the first left it; and the first adds exactly one record under the job's key,
  with status RUNNING, when there was none (a record already there is kept).
  For any behaviour of the store, \<open>create_job\<close> raises exactly when the
  conditional put fails with an error other than the rejection
  \<open>ConditionalCheckFailedException\<close>. Each call makes one atomic conditional
  put, so two concurrent calls act as the two calls in one of the two orders.
\<close>

theorem create_job_twice:
  "fst (create_job None t1 t2 s u r m j) = None \<and>
   fst (create_job None t3 t4 (snd (create_job None t1 t2 s u r m j)) u r m' j') = None \<and>
   tbl (snd (create_job None t3 t4 (snd (create_job None t1 t2 s u r m j)) u r m' j')) =
     tbl (snd (create_job None t1 t2 s u r m j)) \<and>
   tbl (snd (create_job None t1 t2 s u r m j)) =
     (case tbl s (u, job_sk r) of
        Some it \<Rightarrow> tbl s
      | None \<Rightarrow> (tbl s)((u, job_sk r) \<mapsto> job_item u r m j t1 t2)) \<and>
   job_item u r m j t1 t2 (lit ''status'') = Some (AStr (lit ''RUNNING'')) \<and>
   ((fst (create_job fault t1 t2 s u r m j) \<noteq> None) =
    (\<exists>e. put_item_if_absent fault (tbl s) (job_item u r m j t1 t2) = Inl e \<and>
         e \<noteq> ClientError ''ConditionalCheckFailedException''))"
proof (intro conjI)
  show "fst (create_job None t1 t2 s u r m j) = None"
    by (simp add: create_job_served split: option.splits)
  show "fst (create_job None t3 t4 (snd (create_job None t1 t2 s u r m j)) u r m' j') = None"
    by (simp add: create_job_served split: option.splits)
  show "tbl (snd (create_job None t3 t4 (snd (create_job None t1 t2 s u r m j)) u r m' j')) =
     tbl (snd (create_job None t1 t2 s u r m j))"
    by (simp add: create_job_served split: option.splits)
  show "tbl (snd (create_job None t1 t2 s u r m j)) =
     (case tbl s (u, job_sk r) of
        Some it \<Rightarrow> tbl s
      | None \<Rightarrow> (tbl s)((u, job_sk r) \<mapsto> job_item u r m j t1 t2))"
    by (simp add: create_job_served split: option.splits)
  show "job_item u r m j t1 t2 (lit ''status'') = Some (AStr (lit ''RUNNING''))"
    by (rule job_item_status)
  show "(fst (create_job fault t1 t2 s u r m j) \<noteq> None) =
    (\<exists>e. put_item_if_absent fault (tbl s) (job_item u r m j t1 t2) = Inl e \<and>
         e \<noteq> ClientError ''ConditionalCheckFailedException'')"
    by (auto simp: create_job_def split: sum.splits exn.splits)
qed

text \<open>
  On the empty table: after two calls for (u1, r1) the table holds the one record
  of the first call; a throttled call raises.
\<close>

theorem create_job_twice_witness:
  "fst (create_job None (lit ''t3'') (lit ''t4'')
      (snd (create_job None (lit ''t1'') (lit ''t2'') \<lparr>tbl = Map.empty, logs = []\<rparr>
         (lit ''u1'') (lit ''r1'') None None))
      (lit ''u1'') (lit ''r1'') None None) = None \<and>
   tbl (snd (create_job None (lit ''t3'') (lit ''t4'')
      (snd (create_job None (lit ''t1'') (lit ''t2'') \<lparr>tbl = Map.empty, logs = []\<rparr>
         (lit ''u1'') (lit ''r1'') None None))
      (lit ''u1'') (lit ''r1'') None None)) =
     [(lit ''u1'', lit ''job#r1'') \<mapsto>
        job_item (lit ''u1'') (lit ''r1'') None None (lit ''t1'') (lit ''t2'')] \<and>
   job_item (lit ''u1'') (lit ''r1'') None None (lit ''t1'') (lit ''t2'') (lit ''status'') =
     Some (AStr (lit ''RUNNING'')) \<and>
   fst (create_job (Some (ClientError ''ThrottlingException'')) (lit ''t1'') (lit ''t2'')
      \<lparr>tbl = Map.empty, logs = []\<rparr> (lit ''u1'') (lit ''r1'') None None) \<noteq> None"
proof -
  have key: "job_sk (lit ''r1'') = lit ''job#r1''"
    by (simp add: job_sk_def JOB_SK_PREFIX_def lit_def)
  show ?thesis
    using create_job_twice [where s = "\<lparr>tbl = Map.empty, logs = []\<rparr>" and u = "lit ''u1''"
        and r = "lit ''r1''" and m = None and j = None and m' = None and j' = None
        and ?t1.0 = "lit ''t1''" and ?t2.0 = "lit ''t2''" and ?t3.0 = "lit ''t3''"
        and ?t4.0 = "lit ''t4''" and fault = "Some (ClientError ''ThrottlingException'')"]
      key
    by (simp add: put_item_if_absent_def)
qed

text \<open>
  C5. \<open>append_progress\<close> trims the line of surrounding whitespace first. When the
  trimmed line is empty nothing is appended: the state is returned as it was,
  whatever the store would have done. Otherwise, when the store serves the
  update, the progress list of the job (the empty list when the record or the
  attribute is missing) gains one element, whose content after the time prefix
  is the first 600 units of the trimmed line followed by the marker \<open>" ..."\<close>
  when the trimmed line is longer than 600, and the trimmed line itself
  otherwise.
\<close>

theorem append_progress_trims_drops_caps:
  assumes "l = py_strip (case line of None \<Rightarrow> [] | Some x \<Rightarrow> x)"
    and "old = (case tbl s (u, job_sk r) of Some it \<Rightarrow> it | None \<Rightarrow> key_item (u, job_sk r))"
    and "old (lit ''progress'') = Some (AList xs) \<or> old (lit ''progress'') = None \<and> xs = []"
  shows "(l = [] \<longrightarrow> append_progress fault tm now s u r line = (None, s)) \<and>
         (l \<noteq> [] \<longrightarrow>
            append_progress None tm now s u r line =
              (None, s\<lparr>tbl := (tbl s)((u, job_sk r) \<mapsto>
                 old(lit ''progress'' \<mapsto>
                       AList (xs @ [AStr (strftime_HMS tm @ lit ''  '' @
                          (if 600 < length l then take 600 l @ lit '' ...'' else l))]),
                     lit ''updatedAt'' \<mapsto> AStr now))\<rparr>))"
proof (intro conjI impI)
  assume "l = []"
  with assms(1) have "capped_line line = None"
    by (simp add: capped_line_def)
  then show "append_progress fault tm now s u r line = (None, s)"
    by (rule append_progress_dropped)
next
  assume "l \<noteq> []"
  with assms(1) have "capped_line line =
      Some (if 600 < length l then take 600 l @ lit '' ...'' else l)"
    by (simp add: capped_line_def Let_def)
  then show "append_progress None tm now s u r line =
              (None, s\<lparr>tbl := (tbl s)((u, job_sk r) \<mapsto>
                 old(lit ''progress'' \<mapsto>
                       AList (xs @ [AStr (strftime_HMS tm @ lit ''  '' @
                          (if 600 < length l then take 600 l @ lit '' ...'' else l))]),
                     lit ''updatedAt'' \<mapsto> AStr now))\<rparr>)"
    using assms(2,3) by (rule append_progress_served)
qed

text \<open>
  The theorem at three lines, on the empty table at 09:05:59: a line of blanks, a
  short line with blanks around it, and a line of 601 letters.
\<close>

theorem append_progress_trims_drops_caps_witness:
  "append_progress (Some (ClientError ''ThrottlingException''))
     \<lparr>tm_hour = 9, tm_min = 5, tm_sec = 59\<rparr> (lit ''t'') \<lparr>tbl = Map.empty, logs = []\<rparr>
     (lit ''u1'') (lit ''r1'') (Some (lit ''   '')) = (None, \<lparr>tbl = Map.empty, logs = []\<rparr>) \<and>
   append_progress None \<lparr>tm_hour = 9, tm_min = 5, tm_sec = 59\<rparr> (lit ''t'')
     \<lparr>tbl = Map.empty, logs = []\<rparr> (lit ''u1'') (lit ''r1'') (Some (lit ''  STATUS: hi  '')) =
     (None, \<lparr>tbl = [(lit ''u1'', lit ''job#r1'') \<mapsto>
                [lit ''userId'' \<mapsto> AStr (lit ''u1''), lit ''itineraryId'' \<mapsto> AStr (lit ''job#r1''),
                 lit ''progress'' \<mapsto> AList [AStr (lit ''09:05:59  STATUS: hi'')],
                 lit ''updatedAt'' \<mapsto> AStr (lit ''t'')]],
              logs = []\<rparr>) \<and>
   append_progress None \<lparr>tm_hour = 9, tm_min = 5, tm_sec = 59\<rparr> (lit ''t'')
     \<lparr>tbl = Map.empty, logs = []\<rparr> (lit ''u1'') (lit ''r1'') (Some (replicate 601 97)) =
     (None, \<lparr>tbl = [(lit ''u1'', lit ''job#r1'') \<mapsto>
                [lit ''userId'' \<mapsto> AStr (lit ''u1''), lit ''itineraryId'' \<mapsto> AStr (lit ''job#r1''),
                 lit ''progress'' \<mapsto>
                   AList [AStr (lit ''09:05:59  '' @ replicate 600 97 @ lit '' ...'')],
                 lit ''updatedAt'' \<mapsto> AStr (lit ''t'')]],
              logs = []\<rparr>)"
proof -
  have blank: "py_strip (lit ''   '') = []"
    by (simp add: py_strip_def lit_def py_isspace_def)
  have short: "py_strip (lit ''  STATUS: hi  '') = lit ''STATUS: hi''"
    by (simp add: py_strip_def lit_def py_isspace_def)
  have long: "py_strip (replicate 601 97) = replicate 601 97"
    by (simp add: py_strip_def py_isspace_def)
  have stamp: "strftime_HMS \<lparr>tm_hour = 9, tm_min = 5, tm_sec = 59\<rparr> = lit ''09:05:59''"
    by (simp add: strftime_HMS_def two_digits_def lit_def)
  have key: "job_sk (lit ''r1'') = lit ''job#r1''"
    by (simp add: job_sk_def JOB_SK_PREFIX_def lit_def)
  note inst = append_progress_trims_drops_caps
    [where s = "\<lparr>tbl = Map.empty, logs = []\<rparr>" and u = "lit ''u1''" and r = "lit ''r1''"
       and old = "key_item (lit ''u1'', lit ''job#r1'')" and xs = "[]"
       and tm = "\<lparr>tm_hour = 9, tm_min = 5, tm_sec = 59\<rparr>" and now = "lit ''t''"]
  have old: "key_item (lit ''u1'', lit ''job#r1'') (lit ''progress'') = None"
    by (simp add: key_item_def)
  have a: "append_progress (Some (ClientError ''ThrottlingException''))
     \<lparr>tm_hour = 9, tm_min = 5, tm_sec = 59\<rparr> (lit ''t'') \<lparr>tbl = Map.empty, logs = []\<rparr>
     (lit ''u1'') (lit ''r1'') (Some (lit ''   '')) = (None, \<lparr>tbl = Map.empty, logs = []\<rparr>)"
    using inst [where line = "Some (lit ''   '')" and l = "[]"
        and fault = "Some (ClientError ''ThrottlingException'')"] blank old key
    by simp
  have b: "append_progress None \<lparr>tm_hour = 9, tm_min = 5, tm_sec = 59\<rparr> (lit ''t'')
     \<lparr>tbl = Map.empty, logs = []\<rparr> (lit ''u1'') (lit ''r1'') (Some (lit ''  STATUS: hi  '')) =
     (None, \<lparr>tbl = [(lit ''u1'', lit ''job#r1'') \<mapsto>
                [lit ''userId'' \<mapsto> AStr (lit ''u1''), lit ''itineraryId'' \<mapsto> AStr (lit ''job#r1''),
                 lit ''progress'' \<mapsto> AList [AStr (lit ''09:05:59  STATUS: hi'')],
                 lit ''updatedAt'' \<mapsto> AStr (lit ''t'')]],
              logs = []\<rparr>)"
    using inst [where line = "Some (lit ''  STATUS: hi  '')" and l = "lit ''STATUS: hi''"
        and fault = None] short old key stamp
    by (simp add: key_item_def) (simp add: lit_def)
  have c: "append_progress None \<lparr>tm_hour = 9, tm_min = 5, tm_sec = 59\<rparr> (lit ''t'')
     \<lparr>tbl = Map.empty, logs = []\<rparr> (lit ''u1'') (lit ''r1'') (Some (replicate 601 97)) =
     (None, \<lparr>tbl = [(lit ''u1'', lit ''job#r1'') \<mapsto>
                [lit ''userId'' \<mapsto> AStr (lit ''u1''), lit ''itineraryId'' \<mapsto> AStr (lit ''job#r1''),
                 lit ''progress'' \<mapsto>
                   AList [AStr (lit ''09:05:59  '' @ replicate 600 97 @ lit '' ...'')],
                 lit ''updatedAt'' \<mapsto> AStr (lit ''t'')]],
              logs = []\<rparr>)"
    using inst [where line = "Some (replicate 601 97)" and l = "replicate 601 97"
        and fault = None] long old key stamp
    by (simp add: key_item_def) (simp add: lit_def)
  from a b c show ?thesis
    by blast
qed

lemma append_progress_failed:
  assumes "capped_line line = Some c"
  shows "append_progress (Some e) tm now s u r line =
     (None, log_to ERROR ''[job] append_progress error'' s)"
  using assms
  by (simp add: append_progress_def append_progress_try_def update_item_def)

lemma log_to_neq: "log_to lv m s \<noteq> s"
proof
  assume "log_to lv m s = s"
  then have "logs (log_to lv m s) = logs s"
    by simp
  then show False
    by (simp add: log_to_def)
qed

lemma append_progress_changes_state:
  assumes "capped_line line = Some c"
  shows "snd (append_progress fault tm now s u r line) \<noteq> s"
proof (cases "fst (append_progress_try fault tm now s u r line)")
  case (Some e)
  then have "snd (append_progress fault tm now s u r line) =
      log_to ERROR ''[job] append_progress error'' s"
    using assms
    by (auto simp: append_progress_def append_progress_try_def split: sum.splits)
  then show ?thesis
    by (simp add: log_to_neq)
next
  case None
  let ?k = "(u, job_sk r)"
  let ?old = "case tbl s ?k of Some it \<Rightarrow> it | None \<Rightarrow> key_item ?k"
  let ?e = "AStr (strftime_HMS tm @ lit ''  '' @ c)"
  from None assms obtain it' where
    upd: "append_progress_update (strftime_HMS tm @ lit ''  '' @ c) now ?old = Inr it'"
    and res: "snd (append_progress fault tm now s u r line) = s\<lparr>tbl := (tbl s)(?k \<mapsto> it')\<rparr>"
    by (auto simp: append_progress_def append_progress_try_def update_item_def
        split: sum.splits option.splits)
  have "tbl s ?k \<noteq> Some it'"
  proof
    assume same: "tbl s ?k = Some it'"
    then have "?old = it'"
      by simp
    with upd have "append_progress_update (strftime_HMS tm @ lit ''  '' @ c) now it' = Inr it'"
      by simp
    then have "it' (lit ''progress'') \<noteq> it' (lit ''progress'')"
      by (auto simp: append_progress_update_def split: option.splits attr.splits
          dest!: fun_cong [where x = "lit ''progress''"])
    then show False
      by simp
  qed
  then have "(tbl s)(?k \<mapsto> it') \<noteq> tbl s"
    by (metis fun_upd_same)
  moreover from res have "tbl (snd (append_progress fault tm now s u r line)) = (tbl s)(?k \<mapsto> it')"
    by simp
  ultimately show ?thesis
    by auto
qed

text \<open>
  C6. \<open>append_progress\<close> and \<open>complete_job\<close> never hand an exception to
  their caller, for every input and whatever the store does. When the body
  fails, the state returned is the state at the call with one ERROR line added
  to the log: the table is as it was.
\<close>

theorem telemetry_never_raises:
  "fst (append_progress fault tm now s u r line) = None \<and>
   fst (complete_job fault' now' s u r st fm iid) = None \<and>
   (fst (append_progress_try fault tm now s u r line) \<noteq> None \<longrightarrow>
      snd (append_progress fault tm now s u r line) =
        log_to ERROR ''[job] append_progress error'' s) \<and>
   (fst (complete_job_try fault' now' s u r st fm iid) \<noteq> None \<longrightarrow>
      snd (complete_job fault' now' s u r st fm iid) =
        log_to ERROR ''[job] complete_job error'' s)"
proof (intro conjI impI)
  show "fst (append_progress fault tm now s u r line) = None"
    by (simp add: append_progress_def split: prod.splits option.splits)
  show "fst (complete_job fault' now' s u r st fm iid) = None"
    by (simp add: complete_job_def split: prod.splits option.splits)
next
  assume "fst (append_progress_try fault tm now s u r line) \<noteq> None"
  then show "snd (append_progress fault tm now s u r line) =
      log_to ERROR ''[job] append_progress error'' s"
    by (auto simp: append_progress_def append_progress_try_def
        split: option.splits sum.splits)
next
  assume "fst (complete_job_try fault' now' s u r st fm iid) \<noteq> None"
  then show "snd (complete_job fault' now' s u r st fm iid) =
      log_to ERROR ''[job] complete_job error'' s"
    by (auto simp: complete_job_def complete_job_try_def split: option.splits sum.splits)
qed

text \<open>A throttled store, on the empty table: both calls return and log.\<close>

theorem telemetry_never_raises_witness:
  "append_progress (Some (ClientError ''ThrottlingException''))
     \<lparr>tm_hour = 9, tm_min = 5, tm_sec = 59\<rparr> (lit ''t'') \<lparr>tbl = Map.empty, logs = []\<rparr>
     (lit ''u1'') (lit ''r1'') (Some (lit ''STATUS: x'')) =
     (None, \<lparr>tbl = Map.empty, logs = [(ERROR, ''[job] append_progress error'')]\<rparr>) \<and>
   complete_job (Some (OtherException ''EndpointConnectionError'')) (lit ''t'')
     \<lparr>tbl = Map.empty, logs = []\<rparr> (lit ''u1'') (lit ''r1'') (lit ''SUCCEEDED'') None None =
     (None, \<lparr>tbl = Map.empty, logs = [(ERROR, ''[job] complete_job error'')]\<rparr>)"
proof -
  have a: "fst (append_progress_try (Some (ClientError ''ThrottlingException''))
     \<lparr>tm_hour = 9, tm_min = 5, tm_sec = 59\<rparr> (lit ''t'') \<lparr>tbl = Map.empty, logs = []\<rparr>
     (lit ''u1'') (lit ''r1'') (Some (lit ''STATUS: x''))) \<noteq> None"
    by (simp add: append_progress_try_def capped_line_def update_item_def py_strip_def
        py_isspace_def lit_def)
  have b: "fst (complete_job_try (Some (OtherException ''EndpointConnectionError'')) (lit ''t'')
     \<lparr>tbl = Map.empty, logs = []\<rparr> (lit ''u1'') (lit ''r1'') (lit ''SUCCEEDED'') None None) \<noteq> None"
    by (simp add: complete_job_try_def update_item_def)
  show ?thesis
    using a b telemetry_never_raises
      [where fault = "Some (ClientError ''ThrottlingException'')"
         and fault' = "Some (OtherException ''EndpointConnectionError'')"
         and tm = "\<lparr>tm_hour = 9, tm_min = 5, tm_sec = 59\<rparr>" and now = "lit ''t''"
         and now' = "lit ''t''" and s = "\<lparr>tbl = Map.empty, logs = []\<rparr>"
         and u = "lit ''u1''" and r = "lit ''r1''" and line = "Some (lit ''STATUS: x'')"
         and st = "lit ''SUCCEEDED''" and fm = None and iid = None]
    by (simp add: prod_eq_iff log_to_def)
qed





text \<open>
  C10. \<open>append_progress\<close> does not need the job record to exist. For a key with
  no record, a served append of a line that is not dropped creates a record
  whose attributes are exactly \<open>userId\<close>, \<open>itineraryId\<close>, \<open>progress\<close> (one
  element) and \<open>updatedAt\<close>: it has no \<open>status\<close>, \<open>startedAt\<close> or \<open>type\<close>,
  which every record written by \<open>create_job\<close> has.
\<close>

theorem append_progress_upserts_bare_record:
  assumes "tbl s (u, job_sk r) = None"
    and "capped_line line = Some c"
  shows "fst (append_progress None tm now s u r line) = None \<and>
    (\<exists>it. tbl (snd (append_progress None tm now s u r line)) (u, job_sk r) = Some it \<and>
       dom it = {lit ''userId'', lit ''itineraryId'', lit ''progress'', lit ''updatedAt''} \<and>
       it (lit ''userId'') = Some (AStr u) \<and>
       it (lit ''itineraryId'') = Some (AStr (job_sk r)) \<and>
       it (lit ''progress'') = Some (AList [AStr (strftime_HMS tm @ lit ''  '' @ c)]) \<and>
       it (lit ''updatedAt'') = Some (AStr now) \<and>
       it (lit ''status'') = None \<and> it (lit ''startedAt'') = None \<and>
       it (lit ''type'') = None) \<and>
    {lit ''status'', lit ''startedAt'', lit ''type''} \<subseteq> dom (job_item u r m j t1 t2)"
proof -
  have old: "key_item (u, job_sk r) =
      (case tbl s (u, job_sk r) of Some it \<Rightarrow> it | None \<Rightarrow> key_item (u, job_sk r))"
    using assms(1) by simp
  have none: "key_item (u, job_sk r) (lit ''progress'') = Some (AList []) \<or>
      key_item (u, job_sk r) (lit ''progress'') = None \<and> ([]::attr list) = []"
    by (simp add: key_item_def)
  have "append_progress None tm now s u r line =
     (None, s\<lparr>tbl := (tbl s)((u, job_sk r) \<mapsto>
        (key_item (u, job_sk r))
          (lit ''progress'' \<mapsto> AList ([] @ [AStr (strftime_HMS tm @ lit ''  '' @ c)]),
           lit ''updatedAt'' \<mapsto> AStr now))\<rparr>)"
    using assms(2) old none by (rule append_progress_served)
  moreover have "{lit ''status'', lit ''startedAt'', lit ''type''} \<subseteq> dom (job_item u r m j t1 t2)"
    by (simp add: job_item_def Let_def split: option.splits list.splits)
  ultimately show ?thesis
    by (simp add: key_item_def) auto
qed

theorem append_progress_upserts_bare_record_witness:
  "fst (append_progress None \<lparr>tm_hour = 9, tm_min = 5, tm_sec = 59\<rparr> (lit ''t'')
     \<lparr>tbl = Map.empty, logs = []\<rparr> (lit ''u1'') (lit ''r1'') (Some (lit ''STATUS: x''))) = None \<and>
   (\<exists>it. tbl (snd (append_progress None \<lparr>tm_hour = 9, tm_min = 5, tm_sec = 59\<rparr> (lit ''t'')
            \<lparr>tbl = Map.empty, logs = []\<rparr> (lit ''u1'') (lit ''r1'') (Some (lit ''STATUS: x''))))
          (lit ''u1'', lit ''job#r1'') = Some it \<and>
      dom it = {lit ''userId'', lit ''itineraryId'', lit ''progress'', lit ''updatedAt''} \<and>
      it (lit ''progress'') = Some (AList [AStr (lit ''09:05:59  STATUS: x'')]) \<and>
      it (lit ''status'') = None)"
proof -
  have cap: "capped_line (Some (lit ''STATUS: x'')) = Some (lit ''STATUS: x'')"
    by (simp add: capped_line_def py_strip_def py_isspace_def lit_def)
  have key: "job_sk (lit ''r1'') = lit ''job#r1''"
    by (simp add: job_sk_def JOB_SK_PREFIX_def lit_def)
  have stamp: "strftime_HMS \<lparr>tm_hour = 9, tm_min = 5, tm_sec = 59\<rparr> @ lit ''  '' @ lit ''STATUS: x'' =
      lit ''09:05:59  STATUS: x''"
    by (simp add: strftime_HMS_def two_digits_def lit_def)
  have "tbl \<lparr>tbl = Map.empty, logs = []\<rparr> (lit ''u1'', job_sk (lit ''r1'')) = None"
    by simp
  from append_progress_upserts_bare_record [OF this cap,
      where tm = "\<lparr>tm_hour = 9, tm_min = 5, tm_sec = 59\<rparr>" and now = "lit ''t''"]
  show ?thesis
    unfolding key stamp by blast
qed

lemma complete_job_served:
  "complete_job None now s u r st fm iid =
     (None, log_to INFO ''[job] completed''
        (s\<lparr>tbl := (tbl s)((u, job_sk r) \<mapsto>
           (let old = (case tbl s (u, job_sk r) of Some it \<Rightarrow> it | None \<Rightarrow> key_item (u, job_sk r));
                it1 = old(lit ''status'' \<mapsto> AStr st, lit ''completedAt'' \<mapsto> AStr now,
                          lit ''updatedAt'' \<mapsto> AStr now);
                it2 = (case fm of
                         Some (c # cs) \<Rightarrow> it1(lit ''finalMessage'' \<mapsto> AStr (take 180000 (c # cs)))
                       | _ \<Rightarrow> it1)
            in case iid of
                 Some (c # cs) \<Rightarrow> it2(lit ''resultItineraryId'' \<mapsto> AStr (c # cs))
               | _ \<Rightarrow> it2))\<rparr>))"
  by (simp add: complete_job_def complete_job_try_def update_item_def complete_job_update_def
      Let_def)

text \<open>
  C2, as the code has it. \<open>complete_job\<close> evaluates no condition on the current
  status: every call the store serves returns and writes the status it was
  given, with completedAt and updatedAt, whatever the record held before, also
  a terminal status, and also when there was no record. The final message is
  replaced when the call passes a non-empty one and kept otherwise. The last
  write wins.
\<close>

theorem complete_job_last_write_wins:
  "fst (complete_job None now s u r st fm iid) = None \<and>
   (\<exists>it. tbl (snd (complete_job None now s u r st fm iid)) (u, job_sk r) = Some it \<and>
      it (lit ''status'') = Some (AStr st) \<and>
      it (lit ''completedAt'') = Some (AStr now) \<and>
      it (lit ''updatedAt'') = Some (AStr now) \<and>
      it (lit ''finalMessage'') =
        (case fm of
           Some (c # cs) \<Rightarrow> Some (AStr (take 180000 (c # cs)))
         | _ \<Rightarrow> (case tbl s (u, job_sk r) of
                  Some old \<Rightarrow> old (lit ''finalMessage'')
                | None \<Rightarrow> None)))"
  by (simp add: complete_job_served Let_def key_item_def split: option.splits list.splits)

theorem complete_job_last_write_wins_witness:
  "fst (complete_job None (lit ''t2'')
      \<lparr>tbl = [(lit ''u1'', lit ''job#r1'') \<mapsto>
          [lit ''userId'' \<mapsto> AStr (lit ''u1''), lit ''itineraryId'' \<mapsto> AStr (lit ''job#r1''),
           lit ''status'' \<mapsto> AStr (lit ''SUCCEEDED''),
           lit ''finalMessage'' \<mapsto> AStr (lit ''done'')]], logs = []\<rparr>
      (lit ''u1'') (lit ''r1'') (lit ''FAILED'') None None) = None \<and>
   (\<exists>it. tbl (snd (complete_job None (lit ''t2'')
      \<lparr>tbl = [(lit ''u1'', lit ''job#r1'') \<mapsto>
          [lit ''userId'' \<mapsto> AStr (lit ''u1''), lit ''itineraryId'' \<mapsto> AStr (lit ''job#r1''),
           lit ''status'' \<mapsto> AStr (lit ''SUCCEEDED''),
           lit ''finalMessage'' \<mapsto> AStr (lit ''done'')]], logs = []\<rparr>
      (lit ''u1'') (lit ''r1'') (lit ''FAILED'') None None)) (lit ''u1'', lit ''job#r1'') = Some it \<and>
      it (lit ''status'') = Some (AStr (lit ''FAILED'')) \<and>
      it (lit ''finalMessage'') = Some (AStr (lit ''done'')))"
proof -
  have key: "job_sk (lit ''r1'') = lit ''job#r1''"
    by (simp add: job_sk_def JOB_SK_PREFIX_def lit_def)
  show ?thesis
    using complete_job_last_write_wins [where now = "lit ''t2''" and u = "lit ''u1''"
        and r = "lit ''r1''" and st = "lit ''FAILED''" and fm = None and iid = None
        and s = "\<lparr>tbl = [(lit ''u1'', lit ''job#r1'') \<mapsto>
          [lit ''userId'' \<mapsto> AStr (lit ''u1''), lit ''itineraryId'' \<mapsto> AStr (lit ''job#r1''),
           lit ''status'' \<mapsto> AStr (lit ''SUCCEEDED''),
           lit ''finalMessage'' \<mapsto> AStr (lit ''done'')]], logs = []\<rparr>"]
    unfolding key by auto
qed

text \<open>
  The claim as stated fails: a job created, completed as SUCCEEDED with the
  message "done", and completed again as FAILED with the message "boom", ends
  with status FAILED and message "boom".
\<close>

theorem complete_job_guard_counterexample:
  "(\<exists>it. tbl (snd (complete_job None (lit ''t1'')
            (snd (create_job None (lit ''t0'') (lit ''t0'') \<lparr>tbl = Map.empty, logs = []\<rparr>
               (lit ''u1'') (lit ''r1'') None None))
            (lit ''u1'') (lit ''r1'') (lit ''SUCCEEDED'') (Some (lit ''done'')) None))
          (lit ''u1'', lit ''job#r1'') = Some it \<and>
      it (lit ''status'') = Some (AStr (lit ''SUCCEEDED'')) \<and>
      it (lit ''finalMessage'') = Some (AStr (lit ''done''))) \<and>
   (\<exists>it. tbl (snd (complete_job None (lit ''t2'')
            (snd (complete_job None (lit ''t1'')
               (snd (create_job None (lit ''t0'') (lit ''t0'') \<lparr>tbl = Map.empty, logs = []\<rparr>
                  (lit ''u1'') (lit ''r1'') None None))
               (lit ''u1'') (lit ''r1'') (lit ''SUCCEEDED'') (Some (lit ''done'')) None))
            (lit ''u1'') (lit ''r1'') (lit ''FAILED'') (Some (lit ''boom'')) None))
          (lit ''u1'', lit ''job#r1'') = Some it \<and>
      it (lit ''status'') = Some (AStr (lit ''FAILED'')) \<and>
      it (lit ''finalMessage'') = Some (AStr (lit ''boom'')))"
proof -
  have key: "job_sk (lit ''r1'') = lit ''job#r1''"
    by (simp add: job_sk_def JOB_SK_PREFIX_def lit_def)
  have m1: "lit ''done'' = [100, 111, 110, 101]" and m2: "lit ''boom'' = [98, 111, 111, 109]"
    by (simp_all add: lit_def)
  show ?thesis
    by (simp add: complete_job_served create_job_served key Let_def m1 m2)
qed

lemma startswith_capped:
  assumes "startswith msg p" and "p \<noteq> []" and "\<not> py_isspace (hd p)"
  shows "capped_line (Some msg) \<noteq> None"
proof -
  from assms(1,2) have "msg \<noteq> []" and "hd msg = hd p"
    by (auto simp: startswith_def hd_take dest: arg_cong [where f = hd])
  with assms(3) have "py_strip msg \<noteq> []"
    by (simp add: py_strip_keeps)
  then show ?thesis
    by (simp add: capped_line_def Let_def)
qed

lemma prefix_capped:
  assumes "list_ex (startswith msg) progress_prefixes"
  shows "capped_line (Some msg) \<noteq> None"
proof -
  from assms obtain p where p: "p \<in> set progress_prefixes" and sw: "startswith msg p"
    by (auto simp: list_ex_iff)
  from p have "p \<noteq> [] \<and> \<not> py_isspace (hd p)"
    by (auto simp: progress_prefixes_def lit_def py_isspace_def)
  with sw show ?thesis
    by (simp add: startswith_capped)
qed

text \<open>
  C7, as the code has it. The handler forwards a formatted log line to
  \<open>append_progress\<close> exactly when it starts with one of four prefixes:
  \<open>STATUS:\<close>, \<open>TOOL:\<close>, \<open>TOOL_RESULT:\<close> or \<open>Tool #\<close>. A forwarded line is
  never dropped by the trimming, so forwarding always shows in the state (the
  job's record changes, or the failure is logged); any other line leaves the
  state as it was.
\<close>

theorem emit_forwards_iff_prefix:
  "emit fault tm now h s msg =
     (if startswith msg (lit ''STATUS:'') \<or> startswith msg (lit ''TOOL:'') \<or>
         startswith msg (lit ''TOOL_RESULT:'') \<or> startswith msg (lit ''Tool #'')
      then append_progress fault tm now s (h_user_id h) (h_request_id h) (Some msg)
      else (None, s)) \<and>
   (snd (emit fault tm now h s msg) \<noteq> s) =
     (startswith msg (lit ''STATUS:'') \<or> startswith msg (lit ''TOOL:'') \<or>
      startswith msg (lit ''TOOL_RESULT:'') \<or> startswith msg (lit ''Tool #''))"
proof -
  have m: "list_ex (startswith msg) progress_prefixes =
      (startswith msg (lit ''STATUS:'') \<or> startswith msg (lit ''TOOL:'') \<or>
       startswith msg (lit ''TOOL_RESULT:'') \<or> startswith msg (lit ''Tool #''))"
    by (simp add: progress_prefixes_def)
  show ?thesis
  proof (cases "list_ex (startswith msg) progress_prefixes")
    case True
    then obtain c where "capped_line (Some msg) = Some c"
      using prefix_capped by blast
    then have "snd (append_progress fault tm now s (h_user_id h) (h_request_id h) (Some msg)) \<noteq> s"
      by (rule append_progress_changes_state)
    with True m show ?thesis
      by (simp add: emit_def)
  next
    case False
    with m show ?thesis
      by (simp add: emit_def)
  qed
qed

theorem emit_forwards_iff_prefix_witness:
  "emit None \<lparr>tm_hour = 9, tm_min = 5, tm_sec = 59\<rparr> (lit ''t'')
     \<lparr>h_user_id = lit ''u1'', h_request_id = lit ''r1''\<rparr> \<lparr>tbl = Map.empty, logs = []\<rparr>
     (lit ''TOOL_RESULT: ok'') =
   append_progress None \<lparr>tm_hour = 9, tm_min = 5, tm_sec = 59\<rparr> (lit ''t'')
     \<lparr>tbl = Map.empty, logs = []\<rparr> (lit ''u1'') (lit ''r1'') (Some (lit ''TOOL_RESULT: ok'')) \<and>
   snd (emit None \<lparr>tm_hour = 9, tm_min = 5, tm_sec = 59\<rparr> (lit ''t'')
     \<lparr>h_user_id = lit ''u1'', h_request_id = lit ''r1''\<rparr> \<lparr>tbl = Map.empty, logs = []\<rparr>
     (lit ''TOOL_RESULT: ok'')) \<noteq> \<lparr>tbl = Map.empty, logs = []\<rparr> \<and>
   emit None \<lparr>tm_hour = 9, tm_min = 5, tm_sec = 59\<rparr> (lit ''t'')
     \<lparr>h_user_id = lit ''u1'', h_request_id = lit ''r1''\<rparr> \<lparr>tbl = Map.empty, logs = []\<rparr>
     (lit ''[invoke] userId=u1'') = (None, \<lparr>tbl = Map.empty, logs = []\<rparr>)"
proof -
  have yes: "startswith (lit ''TOOL_RESULT: ok'') (lit ''TOOL_RESULT:'')"
    by (simp add: startswith_def lit_def)
  have no: "\<not> (startswith (lit ''[invoke] userId=u1'') (lit ''STATUS:'') \<or>
      startswith (lit ''[invoke] userId=u1'') (lit ''TOOL:'') \<or>
      startswith (lit ''[invoke] userId=u1'') (lit ''TOOL_RESULT:'') \<or>
      startswith (lit ''[invoke] userId=u1'') (lit ''Tool #''))"
    by (simp add: startswith_def lit_def)
  note a = emit_forwards_iff_prefix [where msg = "lit ''TOOL_RESULT: ok''" and fault = None
      and tm = "\<lparr>tm_hour = 9, tm_min = 5, tm_sec = 59\<rparr>" and now = "lit ''t''"
      and h = "\<lparr>h_user_id = lit ''u1'', h_request_id = lit ''r1''\<rparr>"
      and s = "\<lparr>tbl = Map.empty, logs = []\<rparr>"]
  note b = emit_forwards_iff_prefix [where msg = "lit ''[invoke] userId=u1''" and fault = None
      and tm = "\<lparr>tm_hour = 9, tm_min = 5, tm_sec = 59\<rparr>" and now = "lit ''t''"
      and h = "\<lparr>h_user_id = lit ''u1'', h_request_id = lit ''r1''\<rparr>"
      and s = "\<lparr>tbl = Map.empty, logs = []\<rparr>"]
  from a [THEN conjunct1] yes have a1: "emit None \<lparr>tm_hour = 9, tm_min = 5, tm_sec = 59\<rparr> (lit ''t'')
     \<lparr>h_user_id = lit ''u1'', h_request_id = lit ''r1''\<rparr> \<lparr>tbl = Map.empty, logs = []\<rparr>
     (lit ''TOOL_RESULT: ok'') =
   append_progress None \<lparr>tm_hour = 9, tm_min = 5, tm_sec = 59\<rparr> (lit ''t'')
     \<lparr>tbl = Map.empty, logs = []\<rparr> (lit ''u1'') (lit ''r1'') (Some (lit ''TOOL_RESULT: ok''))"
    by simp
  from a [THEN conjunct2] yes have a2: "snd (emit None \<lparr>tm_hour = 9, tm_min = 5, tm_sec = 59\<rparr> (lit ''t'')
     \<lparr>h_user_id = lit ''u1'', h_request_id = lit ''r1''\<rparr> \<lparr>tbl = Map.empty, logs = []\<rparr>
     (lit ''TOOL_RESULT: ok'')) \<noteq> \<lparr>tbl = Map.empty, logs = []\<rparr>"
    by simp
  from b [THEN conjunct1] no have b1: "emit None \<lparr>tm_hour = 9, tm_min = 5, tm_sec = 59\<rparr> (lit ''t'')
     \<lparr>h_user_id = lit ''u1'', h_request_id = lit ''r1''\<rparr> \<lparr>tbl = Map.empty, logs = []\<rparr>
     (lit ''[invoke] userId=u1'') = (None, \<lparr>tbl = Map.empty, logs = []\<rparr>)"
    by simp
  from a1 a2 b1 show ?thesis
    by (intro conjI)
qed

text \<open>
  The claim as stated fails: the line "Tool #1: http_request" starts with none of
  STATUS:, TOOL: and TOOL_RESULT:, and the handler appends it to the job's
  progress.
\<close>

theorem emit_three_prefixes_counterexample:
  "\<not> startswith (lit ''Tool #1: http_request'') (lit ''STATUS:'') \<and>
   \<not> startswith (lit ''Tool #1: http_request'') (lit ''TOOL:'') \<and>
   \<not> startswith (lit ''Tool #1: http_request'') (lit ''TOOL_RESULT:'') \<and>
   (\<exists>it. tbl (snd (emit None \<lparr>tm_hour = 9, tm_min = 5, tm_sec = 59\<rparr> (lit ''t'')
            \<lparr>h_user_id = lit ''u1'', h_request_id = lit ''r1''\<rparr> \<lparr>tbl = Map.empty, logs = []\<rparr>
            (lit ''Tool #1: http_request''))) (lit ''u1'', lit ''job#r1'') = Some it \<and>
      it (lit ''progress'') = Some (AList [AStr (lit ''09:05:59  Tool #1: http_request'')]))"
proof -
  have cap: "capped_line (Some (lit ''Tool #1: http_request'')) = Some (lit ''Tool #1: http_request'')"
    by (simp add: capped_line_def py_strip_def py_isspace_def lit_def)
  have key: "job_sk (lit ''r1'') = lit ''job#r1''"
    by (simp add: job_sk_def JOB_SK_PREFIX_def lit_def)
  have stamp: "strftime_HMS \<lparr>tm_hour = 9, tm_min = 5, tm_sec = 59\<rparr> @ lit ''  '' @
      lit ''Tool #1: http_request'' = lit ''09:05:59  Tool #1: http_request''"
    by (simp add: strftime_HMS_def two_digits_def lit_def)
  have old: "key_item (lit ''u1'', job_sk (lit ''r1'')) =
      (case tbl \<lparr>tbl = Map.empty, logs = []\<rparr> (lit ''u1'', job_sk (lit ''r1'')) of
         Some it \<Rightarrow> it | None \<Rightarrow> key_item (lit ''u1'', job_sk (lit ''r1'')))"
    by simp
  have none: "key_item (lit ''u1'', job_sk (lit ''r1'')) (lit ''progress'') = Some (AList []) \<or>
      key_item (lit ''u1'', job_sk (lit ''r1'')) (lit ''progress'') = None \<and> ([]::attr list) = []"
    by (simp add: key_item_def)
  have fwd: "emit None \<lparr>tm_hour = 9, tm_min = 5, tm_sec = 59\<rparr> (lit ''t'')
            \<lparr>h_user_id = lit ''u1'', h_request_id = lit ''r1''\<rparr> \<lparr>tbl = Map.empty, logs = []\<rparr>
            (lit ''Tool #1: http_request'') =
      append_progress None \<lparr>tm_hour = 9, tm_min = 5, tm_sec = 59\<rparr> (lit ''t'')
        \<lparr>tbl = Map.empty, logs = []\<rparr> (lit ''u1'') (lit ''r1'') (Some (lit ''Tool #1: http_request''))"
    by (simp add: emit_def progress_prefixes_def startswith_def lit_def)
  have "\<not> startswith (lit ''Tool #1: http_request'') (lit ''STATUS:'')"
    and "\<not> startswith (lit ''Tool #1: http_request'') (lit ''TOOL:'')"
    and "\<not> startswith (lit ''Tool #1: http_request'') (lit ''TOOL_RESULT:'')"
    by (simp_all add: startswith_def lit_def)
  then show ?thesis
    unfolding fwd append_progress_served [OF cap old none] stamp key
    by simp
qed

section \<open>The itinerary record\<close>

lemma ensure_itinerary_shape_missing_id:
  assumes "d (lit ''itineraryId'') = None"
  shows "ensure_itinerary_shape g (Some d) (lit ''itineraryId'') = Some (AStr g)"
  using assms by (simp add: ensure_itinerary_shape_def setdefault_def Let_def)

lemma ensure_itinerary_shape_given_id:
  assumes "d (lit ''itineraryId'') = Some v"
  shows "ensure_itinerary_shape g (Some d) (lit ''itineraryId'') = Some v"
  using assms by (simp add: ensure_itinerary_shape_def setdefault_def Let_def)

text \<open>
  The identity \<open>save_itinerary\<close> puts under \<open>itineraryId\<close>, for a dictionary
  without that key: the fresh random UUID, whatever the request identifier is.
  The deterministic identity is reached only when the key is present with a
  falsy value.
\<close>

lemma save_itinerary_missing_id:
  assumes "d (lit ''itineraryId'') = None" and "g \<noteq> []"
  shows "fst (save_itinerary uuid5 str_of g now None s u (Some d) rid) =
     (if tbl s (u, g) = None then Inr (lit ''saved:'' @ g) else Inr (lit ''duplicate:'' @ g))"
  using assms
  by (simp add: save_itinerary_def Let_def ensure_itinerary_shape_missing_id get_or_def
      truthy_def fmt_def put_item_if_absent_def item_key_def)

lemma save_itinerary_falsy_id:
  assumes "d (lit ''itineraryId'') = Some v" and "\<not> truthy v"
    and "i = stable_itinerary_id uuid5 u
           (fmt str_of (get_or (ensure_itinerary_shape g (Some d)) (lit ''destination'') (AStr [])))
           (fmt str_of (get_or (ensure_itinerary_shape g (Some d)) (lit ''startDate'') (AStr [])))
           (fmt str_of (get_or (ensure_itinerary_shape g (Some d)) (lit ''endDate'') (AStr [])))
           rid"
  shows "fst (save_itinerary uuid5 str_of g now None s u (Some d) rid) =
     (if tbl s (u, i) = None then Inr (lit ''saved:'' @ i) else Inr (lit ''duplicate:'' @ i))"
  using assms
  by (simp add: save_itinerary_def Let_def ensure_itinerary_shape_given_id get_or_def
      fmt_def put_item_if_absent_def item_key_def)

text \<open>
  C1 at a failing input. The itinerary dictionary has a destination and no
  \<open>itineraryId\<close> key; user u1 and request r1 are the same in both calls; the two
  calls draw the random UUIDs id-A and id-B. Both calls answer "saved", each
  under its own random identity: the second is not a duplicate of the first,
  and neither identity is a hash of (u1, r1).
\<close>

theorem save_itinerary_missing_id_not_idempotent:
  "fst (save_itinerary uuid5 str_of (lit ''id-A'') (lit ''t1'') None
      \<lparr>tbl = Map.empty, logs = []\<rparr> (lit ''u1'')
      (Some [lit ''destination'' \<mapsto> AStr (lit ''Kyoto'')]) (lit ''r1'')) =
     Inr (lit ''saved:id-A'') \<and>
   fst (save_itinerary uuid5 str_of (lit ''id-B'') (lit ''t2'') None
      (snd (save_itinerary uuid5 str_of (lit ''id-A'') (lit ''t1'') None
         \<lparr>tbl = Map.empty, logs = []\<rparr> (lit ''u1'')
         (Some [lit ''destination'' \<mapsto> AStr (lit ''Kyoto'')]) (lit ''r1'')))
      (lit ''u1'')
      (Some [lit ''destination'' \<mapsto> AStr (lit ''Kyoto'')]) (lit ''r1'')) =
     Inr (lit ''saved:id-B'')"
proof -
  let ?d = "[lit ''destination'' \<mapsto> AStr (lit ''Kyoto'')]"
  let ?s0 = "\<lparr>tbl = Map.empty, logs = []\<rparr>"
  have d: "?d (lit ''itineraryId'') = None"
    by simp
  have a: "lit ''id-A'' \<noteq> []" and b: "lit ''id-B'' \<noteq> []" and ab: "lit ''id-A'' \<noteq> lit ''id-B''"
    by (simp_all add: lit_def)
  have la: "lit ''saved:'' @ lit ''id-A'' = lit ''saved:id-A''"
    and lb: "lit ''saved:'' @ lit ''id-B'' = lit ''saved:id-B''"
    by (simp_all add: lit_def)
  have first: "fst (save_itinerary uuid5 str_of (lit ''id-A'') (lit ''t1'') None ?s0 (lit ''u1'')
      (Some ?d) (lit ''r1'')) = Inr (lit ''saved:id-A'')"
    using save_itinerary_missing_id [where d = ?d and g = "lit ''id-A''" and ?uuid5.0 = uuid5
        and str_of = str_of and now = "lit ''t1''" and s = ?s0 and u = "lit ''u1''"
        and rid = "lit ''r1''"] d a
    by (simp add: la)
  have t1: "tbl (snd (save_itinerary uuid5 str_of (lit ''id-A'') (lit ''t1'') None ?s0 (lit ''u1'')
      (Some ?d) (lit ''r1''))) (lit ''u1'', lit ''id-B'') = None"
    using ab
    by (simp add: save_itinerary_def Let_def ensure_itinerary_shape_missing_id get_or_def
        truthy_def fmt_def put_item_if_absent_def item_key_def a)
  have second: "fst (save_itinerary uuid5 str_of (lit ''id-B'') (lit ''t2'') None
      (snd (save_itinerary uuid5 str_of (lit ''id-A'') (lit ''t1'') None ?s0 (lit ''u1'')
         (Some ?d) (lit ''r1'')))
      (lit ''u1'') (Some ?d) (lit ''r1'')) = Inr (lit ''saved:id-B'')"
    using save_itinerary_missing_id [where d = ?d and g = "lit ''id-B''" and ?uuid5.0 = uuid5
        and str_of = str_of and now = "lit ''t2''" and u = "lit ''u1''" and rid = "lit ''r1''"
        and s = "snd (save_itinerary uuid5 str_of (lit ''id-A'') (lit ''t1'') None ?s0 (lit ''u1'')
         (Some ?d) (lit ''r1''))"] d b t1
    by (simp add: lb)
  from first second show ?thesis
    by (intro conjI)
qed

section \<open>The credential cache\<close>

text \<open>
  C4, as the code has it. \<open>get_gateway_access_token\<close> returns the configured
  token whenever there is one. Otherwise a non-empty cached token is returned,
  with no request, while the clock is before the cached expiry. Otherwise
  \<open>_mint_cognito_token\<close> runs: with the token URL, the client id or the client
  secret unset it makes no request and returns the empty token; else it makes
  exactly one request. When that request fails, the empty token is returned and
  the cached token and expiry stay as they were. When it answers with a payload
  whose \<open>expires_in\<close> is a number or absent (then 300), the cache holds the
  payload's token with expiry (time of the mint + \<open>expires_in\<close> - 30), and the
  token is returned (the empty token when the payload has none). After a mint
  with \<open>expires_in\<close> = 300 at time t, a call at any time before t + 270
  returns the same token and makes no request.
\<close>

theorem get_gateway_access_token_cases:
  assumes "r = get_gateway_access_token cfg resp now mint_now g"
    and "complete = (COGNITO_TOKEN_URL cfg \<noteq> [] \<and> COGNITO_CLIENT_ID cfg \<noteq> [] \<and>
                     COGNITO_CLIENT_SECRET cfg \<noteq> [])"
    and "hit = (\<exists>t. access_token g = Some t \<and> t \<noteq> [] \<and> now < exp g)"
  shows "(GATEWAY_ACCESS_TOKEN cfg \<noteq> [] \<longrightarrow> r = (Inr (GATEWAY_ACCESS_TOKEN cfg), g)) \<and>
    (GATEWAY_ACCESS_TOKEN cfg = [] \<and> hit \<longrightarrow>
       (\<exists>t. access_token g = Some t \<and> r = (Inr t, g))) \<and>
    (GATEWAY_ACCESS_TOKEN cfg = [] \<and> \<not> hit \<and> \<not> complete \<longrightarrow> r = (Inr [], g)) \<and>
    (GATEWAY_ACCESS_TOKEN cfg = [] \<and> \<not> hit \<and> complete \<and> resp = PostFailed \<longrightarrow>
       fst r = Inr [] \<and> mint_requests (snd r) = mint_requests g + 1 \<and>
       access_token (snd r) = access_token g \<and> exp (snd r) = exp g) \<and>
    (\<forall>tok ex. GATEWAY_ACCESS_TOKEN cfg = [] \<and> \<not> hit \<and> complete \<and>
         resp = Payload tok ex \<and> ex \<noteq> NotANumber \<longrightarrow>
       fst r = Inr (case tok of None \<Rightarrow> [] | Some t \<Rightarrow> t) \<and>
       mint_requests (snd r) = mint_requests g + 1 \<and>
       access_token (snd r) = tok \<and>
       exp (snd r) = mint_now + (case ex of Seconds n \<Rightarrow> n | _ \<Rightarrow> 300) - 30) \<and>
    (\<forall>t now' resp' mint_now'. GATEWAY_ACCESS_TOKEN cfg = [] \<and> \<not> hit \<and> complete \<and>
         resp = Payload (Some t) (Seconds 300) \<and> t \<noteq> [] \<and> now' < mint_now + 270 \<longrightarrow>
       fst r = Inr t \<and>
       get_gateway_access_token cfg resp' now' mint_now' (snd r) = (Inr t, snd r))"
proof -
  have miss: "r = mint_cognito_token cfg resp mint_now g"
    if "GATEWAY_ACCESS_TOKEN cfg = []" and "\<not> hit"
    using that assms(1,3)
    by (auto simp: get_gateway_access_token_def split: option.splits list.splits)
  have c1: "GATEWAY_ACCESS_TOKEN cfg \<noteq> [] \<longrightarrow> r = (Inr (GATEWAY_ACCESS_TOKEN cfg), g)"
    using assms(1) by (simp add: get_gateway_access_token_def)
  have c2: "GATEWAY_ACCESS_TOKEN cfg = [] \<and> hit \<longrightarrow>
      (\<exists>t. access_token g = Some t \<and> r = (Inr t, g))"
    using assms(1,3)
    by (auto simp: get_gateway_access_token_def split: option.splits list.splits)
  have c3: "GATEWAY_ACCESS_TOKEN cfg = [] \<and> \<not> hit \<and> \<not> complete \<longrightarrow> r = (Inr [], g)"
    using miss assms(2) by (auto simp: mint_cognito_token_def)
  have c4: "GATEWAY_ACCESS_TOKEN cfg = [] \<and> \<not> hit \<and> complete \<and> resp = PostFailed \<longrightarrow>
       fst r = Inr [] \<and> mint_requests (snd r) = mint_requests g + 1 \<and>
       access_token (snd r) = access_token g \<and> exp (snd r) = exp g"
    using miss assms(2) by (auto simp: mint_cognito_token_def gw_log_def Let_def)
  have c5: "\<forall>tok ex. GATEWAY_ACCESS_TOKEN cfg = [] \<and> \<not> hit \<and> complete \<and>
         resp = Payload tok ex \<and> ex \<noteq> NotANumber \<longrightarrow>
       fst r = Inr (case tok of None \<Rightarrow> [] | Some t \<Rightarrow> t) \<and>
       mint_requests (snd r) = mint_requests g + 1 \<and>
       access_token (snd r) = tok \<and>
       exp (snd r) = mint_now + (case ex of Seconds n \<Rightarrow> n | _ \<Rightarrow> 300) - 30"
    using miss assms(2)
    by (auto simp: mint_cognito_token_def Let_def split: expires_in.splits)
  have c6: "\<forall>t now' resp' mint_now'. GATEWAY_ACCESS_TOKEN cfg = [] \<and> \<not> hit \<and> complete \<and>
         resp = Payload (Some t) (Seconds 300) \<and> t \<noteq> [] \<and> now' < mint_now + 270 \<longrightarrow>
       fst r = Inr t \<and>
       get_gateway_access_token cfg resp' now' mint_now' (snd r) = (Inr t, snd r)"
  proof (intro allI impI)
    fix t now' resp' mint_now'
    assume h: "GATEWAY_ACCESS_TOKEN cfg = [] \<and> \<not> hit \<and> complete \<and>
         resp = Payload (Some t) (Seconds 300) \<and> t \<noteq> [] \<and> now' < mint_now + 270"
    with c5 have "fst r = Inr t" and "access_token (snd r) = Some t"
      and "exp (snd r) = mint_now + 300 - 30"
      by auto
    with h show "fst r = Inr t \<and>
        get_gateway_access_token cfg resp' now' mint_now' (snd r) = (Inr t, snd r)"
      by (cases t) (simp_all add: get_gateway_access_token_def)
  qed
  from c1 c2 c3 c4 c5 c6 show ?thesis
    by (intro conjI)
qed


text \<open>
  The cases at concrete inputs: a configured token; a cached token one second
  before its expiry; an unset client secret; a failed request; a mint at time
  1000 answering \<open>expires_in\<close> = 300, and the next call at time 1269.
\<close>

theorem get_gateway_access_token_cases_witness:
  "get_gateway_access_token
     \<lparr>GATEWAY_URL = lit ''https://gw/mcp'', GATEWAY_ACCESS_TOKEN = lit ''static'',
       COGNITO_TOKEN_URL = lit ''https://idp/token'', COGNITO_CLIENT_ID = lit ''id'',
       COGNITO_CLIENT_SECRET = lit ''secret'', COGNITO_SCOPE = []\<rparr>
     PostFailed 1000 1000 \<lparr>access_token = None, exp = 0, mint_requests = 0, gw_logs = []\<rparr> = (Inr (lit ''static''), \<lparr>access_token = None, exp = 0, mint_requests = 0, gw_logs = []\<rparr>) \<and>
   get_gateway_access_token
     \<lparr>GATEWAY_URL = lit ''https://gw/mcp'', GATEWAY_ACCESS_TOKEN = [],
       COGNITO_TOKEN_URL = lit ''https://idp/token'', COGNITO_CLIENT_ID = lit ''id'',
       COGNITO_CLIENT_SECRET = lit ''secret'', COGNITO_SCOPE = []\<rparr>
     PostFailed 1269 1269 \<lparr>access_token = Some (lit ''tok''), exp = 1270, mint_requests = 1, gw_logs = []\<rparr> = (Inr (lit ''tok''), \<lparr>access_token = Some (lit ''tok''), exp = 1270, mint_requests = 1, gw_logs = []\<rparr>) \<and>
   get_gateway_access_token
     \<lparr>GATEWAY_URL = lit ''https://gw/mcp'', GATEWAY_ACCESS_TOKEN = [],
       COGNITO_TOKEN_URL = lit ''https://idp/token'', COGNITO_CLIENT_ID = lit ''id'',
       COGNITO_CLIENT_SECRET = [], COGNITO_SCOPE = []\<rparr>
     (Payload (Some (lit ''tok'')) (Seconds 300)) 1000 1000 \<lparr>access_token = None, exp = 0, mint_requests = 0, gw_logs = []\<rparr> = (Inr [], \<lparr>access_token = None, exp = 0, mint_requests = 0, gw_logs = []\<rparr>) \<and>
   fst (get_gateway_access_token
     \<lparr>GATEWAY_URL = lit ''https://gw/mcp'', GATEWAY_ACCESS_TOKEN = [],
       COGNITO_TOKEN_URL = lit ''https://idp/token'', COGNITO_CLIENT_ID = lit ''id'',
       COGNITO_CLIENT_SECRET = lit ''secret'', COGNITO_SCOPE = []\<rparr>
     PostFailed 1000 1000 \<lparr>access_token = None, exp = 0, mint_requests = 0, gw_logs = []\<rparr>) = Inr [] \<and>
   mint_requests (snd (get_gateway_access_token
     \<lparr>GATEWAY_URL = lit ''https://gw/mcp'', GATEWAY_ACCESS_TOKEN = [],
       COGNITO_TOKEN_URL = lit ''https://idp/token'', COGNITO_CLIENT_ID = lit ''id'',
       COGNITO_CLIENT_SECRET = lit ''secret'', COGNITO_SCOPE = []\<rparr>
     PostFailed 1000 1000 \<lparr>access_token = None, exp = 0, mint_requests = 0, gw_logs = []\<rparr>)) = 1 \<and>
   access_token (snd (get_gateway_access_token
     \<lparr>GATEWAY_URL = lit ''https://gw/mcp'', GATEWAY_ACCESS_TOKEN = [],
       COGNITO_TOKEN_URL = lit ''https://idp/token'', COGNITO_CLIENT_ID = lit ''id'',
       COGNITO_CLIENT_SECRET = lit ''secret'', COGNITO_SCOPE = []\<rparr>
     PostFailed 1000 1000 \<lparr>access_token = None, exp = 0, mint_requests = 0, gw_logs = []\<rparr>)) = None \<and>
   fst (get_gateway_access_token
     \<lparr>GATEWAY_URL = lit ''https://gw/mcp'', GATEWAY_ACCESS_TOKEN = [],
       COGNITO_TOKEN_URL = lit ''https://idp/token'', COGNITO_CLIENT_ID = lit ''id'',
       COGNITO_CLIENT_SECRET = lit ''secret'', COGNITO_SCOPE = []\<rparr>
     (Payload (Some (lit ''tok'')) (Seconds 300)) 1000 1000 \<lparr>access_token = None, exp = 0, mint_requests = 0, gw_logs = []\<rparr>) = Inr (lit ''tok'') \<and>
   mint_requests (snd (get_gateway_access_token
     \<lparr>GATEWAY_URL = lit ''https://gw/mcp'', GATEWAY_ACCESS_TOKEN = [],
       COGNITO_TOKEN_URL = lit ''https://idp/token'', COGNITO_CLIENT_ID = lit ''id'',
       COGNITO_CLIENT_SECRET = lit ''secret'', COGNITO_SCOPE = []\<rparr>
     (Payload (Some (lit ''tok'')) (Seconds 300)) 1000 1000 \<lparr>access_token = None, exp = 0, mint_requests = 0, gw_logs = []\<rparr>)) = 1 \<and>
   access_token (snd (get_gateway_access_token
     \<lparr>GATEWAY_URL = lit ''https://gw/mcp'', GATEWAY_ACCESS_TOKEN = [],
       COGNITO_TOKEN_URL = lit ''https://idp/token'', COGNITO_CLIENT_ID = lit ''id'',
       COGNITO_CLIENT_SECRET = lit ''secret'', COGNITO_SCOPE = []\<rparr>
     (Payload (Some (lit ''tok'')) (Seconds 300)) 1000 1000 \<lparr>access_token = None, exp = 0, mint_requests = 0, gw_logs = []\<rparr>)) = Some (lit ''tok'') \<and>
   exp (snd (get_gateway_access_token
     \<lparr>GATEWAY_URL = lit ''https://gw/mcp'', GATEWAY_ACCESS_TOKEN = [],
       COGNITO_TOKEN_URL = lit ''https://idp/token'', COGNITO_CLIENT_ID = lit ''id'',
       COGNITO_CLIENT_SECRET = lit ''secret'', COGNITO_SCOPE = []\<rparr>
     (Payload (Some (lit ''tok'')) (Seconds 300)) 1000 1000 \<lparr>access_token = None, exp = 0, mint_requests = 0, gw_logs = []\<rparr>)) = 1270 \<and>
   get_gateway_access_token
     \<lparr>GATEWAY_URL = lit ''https://gw/mcp'', GATEWAY_ACCESS_TOKEN = [],
       COGNITO_TOKEN_URL = lit ''https://idp/token'', COGNITO_CLIENT_ID = lit ''id'',
       COGNITO_CLIENT_SECRET = lit ''secret'', COGNITO_SCOPE = []\<rparr>
     PostFailed 1269 1269
     (snd (get_gateway_access_token
        \<lparr>GATEWAY_URL = lit ''https://gw/mcp'', GATEWAY_ACCESS_TOKEN = [],
       COGNITO_TOKEN_URL = lit ''https://idp/token'', COGNITO_CLIENT_ID = lit ''id'',
       COGNITO_CLIENT_SECRET = lit ''secret'', COGNITO_SCOPE = []\<rparr>
        (Payload (Some (lit ''tok'')) (Seconds 300)) 1000 1000 \<lparr>access_token = None, exp = 0, mint_requests = 0, gw_logs = []\<rparr>)) =
     (Inr (lit ''tok''),
      snd (get_gateway_access_token
        \<lparr>GATEWAY_URL = lit ''https://gw/mcp'', GATEWAY_ACCESS_TOKEN = [],
       COGNITO_TOKEN_URL = lit ''https://idp/token'', COGNITO_CLIENT_ID = lit ''id'',
       COGNITO_CLIENT_SECRET = lit ''secret'', COGNITO_SCOPE = []\<rparr>
        (Payload (Some (lit ''tok'')) (Seconds 300)) 1000 1000 \<lparr>access_token = None, exp = 0, mint_requests = 0, gw_logs = []\<rparr>))"
proof -
  have tok: "lit ''tok'' \<noteq> []" and static: "lit ''static'' \<noteq> []" and secret: "lit ''secret'' \<noteq> []"
    and url: "lit ''https://idp/token'' \<noteq> []" and cid: "lit ''id'' \<noteq> []"
    by (simp_all add: lit_def)
  note a = get_gateway_access_token_cases [OF refl refl refl,
      where cfg = "\<lparr>GATEWAY_URL = lit ''https://gw/mcp'', GATEWAY_ACCESS_TOKEN = lit ''static'',
       COGNITO_TOKEN_URL = lit ''https://idp/token'', COGNITO_CLIENT_ID = lit ''id'',
       COGNITO_CLIENT_SECRET = lit ''secret'', COGNITO_SCOPE = []\<rparr>"
        and resp = PostFailed and now = 1000 and mint_now = 1000 and g = "\<lparr>access_token = None, exp = 0, mint_requests = 0, gw_logs = []\<rparr>"]
  note b = get_gateway_access_token_cases [OF refl refl refl,
      where cfg = "\<lparr>GATEWAY_URL = lit ''https://gw/mcp'', GATEWAY_ACCESS_TOKEN = [],
       COGNITO_TOKEN_URL = lit ''https://idp/token'', COGNITO_CLIENT_ID = lit ''id'',
       COGNITO_CLIENT_SECRET = lit ''secret'', COGNITO_SCOPE = []\<rparr>"
        and resp = PostFailed and now = 1269 and mint_now = 1269 and g = "\<lparr>access_token = Some (lit ''tok''), exp = 1270, mint_requests = 1, gw_logs = []\<rparr>"]
  note c = get_gateway_access_token_cases [OF refl refl refl,
      where cfg = "\<lparr>GATEWAY_URL = lit ''https://gw/mcp'', GATEWAY_ACCESS_TOKEN = [],
       COGNITO_TOKEN_URL = lit ''https://idp/token'', COGNITO_CLIENT_ID = lit ''id'',
       COGNITO_CLIENT_SECRET = [], COGNITO_SCOPE = []\<rparr>"
        and resp = "(Payload (Some (lit ''tok'')) (Seconds 300))" and now = 1000 and mint_now = 1000 and g = "\<lparr>access_token = None, exp = 0, mint_requests = 0, gw_logs = []\<rparr>"]
  note d = get_gateway_access_token_cases [OF refl refl refl,
      where cfg = "\<lparr>GATEWAY_URL = lit ''https://gw/mcp'', GATEWAY_ACCESS_TOKEN = [],
       COGNITO_TOKEN_URL = lit ''https://idp/token'', COGNITO_CLIENT_ID = lit ''id'',
       COGNITO_CLIENT_SECRET = lit ''secret'', COGNITO_SCOPE = []\<rparr>"
        and resp = PostFailed and now = 1000 and mint_now = 1000 and g = "\<lparr>access_token = None, exp = 0, mint_requests = 0, gw_logs = []\<rparr>"]
  note e = get_gateway_access_token_cases [OF refl refl refl,
      where cfg = "\<lparr>GATEWAY_URL = lit ''https://gw/mcp'', GATEWAY_ACCESS_TOKEN = [],
       COGNITO_TOKEN_URL = lit ''https://idp/token'', COGNITO_CLIENT_ID = lit ''id'',
       COGNITO_CLIENT_SECRET = lit ''secret'', COGNITO_SCOPE = []\<rparr>"
        and resp = "(Payload (Some (lit ''tok'')) (Seconds 300))" and now = 1000 and mint_now = 1000 and g = "\<lparr>access_token = None, exp = 0, mint_requests = 0, gw_logs = []\<rparr>"]
  from a static have a': "get_gateway_access_token
     \<lparr>GATEWAY_URL = lit ''https://gw/mcp'', GATEWAY_ACCESS_TOKEN = lit ''static'',
       COGNITO_TOKEN_URL = lit ''https://idp/token'', COGNITO_CLIENT_ID = lit ''id'',
       COGNITO_CLIENT_SECRET = lit ''secret'', COGNITO_SCOPE = []\<rparr>
     PostFailed 1000 1000 \<lparr>access_token = None, exp = 0, mint_requests = 0, gw_logs = []\<rparr> = (Inr (lit ''static''), \<lparr>access_token = None, exp = 0, mint_requests = 0, gw_logs = []\<rparr>)"
    by simp
  from b tok have b': "get_gateway_access_token
     \<lparr>GATEWAY_URL = lit ''https://gw/mcp'', GATEWAY_ACCESS_TOKEN = [],
       COGNITO_TOKEN_URL = lit ''https://idp/token'', COGNITO_CLIENT_ID = lit ''id'',
       COGNITO_CLIENT_SECRET = lit ''secret'', COGNITO_SCOPE = []\<rparr>
     PostFailed 1269 1269 \<lparr>access_token = Some (lit ''tok''), exp = 1270, mint_requests = 1, gw_logs = []\<rparr> = (Inr (lit ''tok''), \<lparr>access_token = Some (lit ''tok''), exp = 1270, mint_requests = 1, gw_logs = []\<rparr>)"
    by simp
  from c have c': "get_gateway_access_token
     \<lparr>GATEWAY_URL = lit ''https://gw/mcp'', GATEWAY_ACCESS_TOKEN = [],
       COGNITO_TOKEN_URL = lit ''https://idp/token'', COGNITO_CLIENT_ID = lit ''id'',
       COGNITO_CLIENT_SECRET = [], COGNITO_SCOPE = []\<rparr>
     (Payload (Some (lit ''tok'')) (Seconds 300)) 1000 1000 \<lparr>access_token = None, exp = 0, mint_requests = 0, gw_logs = []\<rparr> = (Inr [], \<lparr>access_token = None, exp = 0, mint_requests = 0, gw_logs = []\<rparr>)"
    by simp
  from d secret url cid have d': "fst (get_gateway_access_token
     \<lparr>GATEWAY_URL = lit ''https://gw/mcp'', GATEWAY_ACCESS_TOKEN = [],
       COGNITO_TOKEN_URL = lit ''https://idp/token'', COGNITO_CLIENT_ID = lit ''id'',
       COGNITO_CLIENT_SECRET = lit ''secret'', COGNITO_SCOPE = []\<rparr>
     PostFailed 1000 1000 \<lparr>access_token = None, exp = 0, mint_requests = 0, gw_logs = []\<rparr>) = Inr [] \<and>
   mint_requests (snd (get_gateway_access_token
     \<lparr>GATEWAY_URL = lit ''https://gw/mcp'', GATEWAY_ACCESS_TOKEN = [],
       COGNITO_TOKEN_URL = lit ''https://idp/token'', COGNITO_CLIENT_ID = lit ''id'',
       COGNITO_CLIENT_SECRET = lit ''secret'', COGNITO_SCOPE = []\<rparr>
     PostFailed 1000 1000 \<lparr>access_token = None, exp = 0, mint_requests = 0, gw_logs = []\<rparr>)) = 1 \<and>
   access_token (snd (get_gateway_access_token
     \<lparr>GATEWAY_URL = lit ''https://gw/mcp'', GATEWAY_ACCESS_TOKEN = [],
       COGNITO_TOKEN_URL = lit ''https://idp/token'', COGNITO_CLIENT_ID = lit ''id'',
       COGNITO_CLIENT_SECRET = lit ''secret'', COGNITO_SCOPE = []\<rparr>
     PostFailed 1000 1000 \<lparr>access_token = None, exp = 0, mint_requests = 0, gw_logs = []\<rparr>)) = None"
    by simp
  from e secret url cid tok have e': "fst (get_gateway_access_token
     \<lparr>GATEWAY_URL = lit ''https://gw/mcp'', GATEWAY_ACCESS_TOKEN = [],
       COGNITO_TOKEN_URL = lit ''https://idp/token'', COGNITO_CLIENT_ID = lit ''id'',
       COGNITO_CLIENT_SECRET = lit ''secret'', COGNITO_SCOPE = []\<rparr>
     (Payload (Some (lit ''tok'')) (Seconds 300)) 1000 1000 \<lparr>access_token = None, exp = 0, mint_requests = 0, gw_logs = []\<rparr>) = Inr (lit ''tok'') \<and>
   mint_requests (snd (get_gateway_access_token
     \<lparr>GATEWAY_URL = lit ''https://gw/mcp'', GATEWAY_ACCESS_TOKEN = [],
       COGNITO_TOKEN_URL = lit ''https://idp/token'', COGNITO_CLIENT_ID = lit ''id'',
       COGNITO_CLIENT_SECRET = lit ''secret'', COGNITO_SCOPE = []\<rparr>
     (Payload (Some (lit ''tok'')) (Seconds 300)) 1000 1000 \<lparr>access_token = None, exp = 0, mint_requests = 0, gw_logs = []\<rparr>)) = 1 \<and>
   access_token (snd (get_gateway_access_token
     \<lparr>GATEWAY_URL = lit ''https://gw/mcp'', GATEWAY_ACCESS_TOKEN = [],
       COGNITO_TOKEN_URL = lit ''https://idp/token'', COGNITO_CLIENT_ID = lit ''id'',
       COGNITO_CLIENT_SECRET = lit ''secret'', COGNITO_SCOPE = []\<rparr>
     (Payload (Some (lit ''tok'')) (Seconds 300)) 1000 1000 \<lparr>access_token = None, exp = 0, mint_requests = 0, gw_logs = []\<rparr>)) = Some (lit ''tok'') \<and>
   exp (snd (get_gateway_access_token
     \<lparr>GATEWAY_URL = lit ''https://gw/mcp'', GATEWAY_ACCESS_TOKEN = [],
       COGNITO_TOKEN_URL = lit ''https://idp/token'', COGNITO_CLIENT_ID = lit ''id'',
       COGNITO_CLIENT_SECRET = lit ''secret'', COGNITO_SCOPE = []\<rparr>
     (Payload (Some (lit ''tok'')) (Seconds 300)) 1000 1000 \<lparr>access_token = None, exp = 0, mint_requests = 0, gw_logs = []\<rparr>)) = 1270"
    by simp
  from e secret url cid tok have f': "get_gateway_access_token
     \<lparr>GATEWAY_URL = lit ''https://gw/mcp'', GATEWAY_ACCESS_TOKEN = [],
       COGNITO_TOKEN_URL = lit ''https://idp/token'', COGNITO_CLIENT_ID = lit ''id'',
       COGNITO_CLIENT_SECRET = lit ''secret'', COGNITO_SCOPE = []\<rparr>
     PostFailed 1269 1269
     (snd (get_gateway_access_token
        \<lparr>GATEWAY_URL = lit ''https://gw/mcp'', GATEWAY_ACCESS_TOKEN = [],
       COGNITO_TOKEN_URL = lit ''https://idp/token'', COGNITO_CLIENT_ID = lit ''id'',
       COGNITO_CLIENT_SECRET = lit ''secret'', COGNITO_SCOPE = []\<rparr>
        (Payload (Some (lit ''tok'')) (Seconds 300)) 1000 1000 \<lparr>access_token = None, exp = 0, mint_requests = 0, gw_logs = []\<rparr>)) =
     (Inr (lit ''tok''),
      snd (get_gateway_access_token
        \<lparr>GATEWAY_URL = lit ''https://gw/mcp'', GATEWAY_ACCESS_TOKEN = [],
       COGNITO_TOKEN_URL = lit ''https://idp/token'', COGNITO_CLIENT_ID = lit ''id'',
       COGNITO_CLIENT_SECRET = lit ''secret'', COGNITO_SCOPE = []\<rparr>
        (Payload (Some (lit ''tok'')) (Seconds 300)) 1000 1000 \<lparr>access_token = None, exp = 0, mint_requests = 0, gw_logs = []\<rparr>))"
    by simp
  from a' b' c' d' e' f' show ?thesis
    by (intro conjI) simp_all
qed

text \<open>
  The claim as stated fails where no mint can be made or the mint fails. With the
  client secret unset, a call that finds no configured and no cached token makes
  no request, stores nothing and returns the empty token, although the endpoint
  would have answered; and when the one request fails, the empty token is
  returned and nothing is stored.
\<close>

theorem get_token_without_mint_counterexample:
  "get_gateway_access_token
     \<lparr>GATEWAY_URL = lit ''https://gw/mcp'', GATEWAY_ACCESS_TOKEN = [],
       COGNITO_TOKEN_URL = lit ''https://idp/token'', COGNITO_CLIENT_ID = lit ''id'',
       COGNITO_CLIENT_SECRET = [], COGNITO_SCOPE = []\<rparr>
     (Payload (Some (lit ''tok'')) (Seconds 300)) 1000 1000 \<lparr>access_token = None, exp = 0, mint_requests = 0, gw_logs = []\<rparr> = (Inr [], \<lparr>access_token = None, exp = 0, mint_requests = 0, gw_logs = []\<rparr>) \<and>
   mint_requests \<lparr>access_token = None, exp = 0, mint_requests = 0, gw_logs = []\<rparr> = 0 \<and>
   get_gateway_access_token
     \<lparr>GATEWAY_URL = lit ''https://gw/mcp'', GATEWAY_ACCESS_TOKEN = [],
       COGNITO_TOKEN_URL = lit ''https://idp/token'', COGNITO_CLIENT_ID = lit ''id'',
       COGNITO_CLIENT_SECRET = lit ''secret'', COGNITO_SCOPE = []\<rparr>
     PostFailed 1000 1000 \<lparr>access_token = None, exp = 0, mint_requests = 0, gw_logs = []\<rparr> =
     (Inr [], \<lparr>access_token = None, exp = 0, mint_requests = 1,
               gw_logs = [(WARNING, ''[gateway] failed to mint token via Cognito'')]\<rparr>)"
  by (simp add: get_gateway_access_token_def mint_cognito_token_def gw_log_def lit_def)

section \<open>Tool discovery\<close>

lemma fst_mint_gw_log:
  "fst (mint_cognito_token cfg resp mint_now (gw_log lv m g)) =
   fst (mint_cognito_token cfg resp mint_now g)"
  by (simp add: mint_cognito_token_def gw_log_def Let_def
      split: token_response.splits expires_in.splits)

lemma fst_get_token_gw_log:
  "fst (get_gateway_access_token cfg resp now mint_now (gw_log lv m g)) =
   fst (get_gateway_access_token cfg resp now mint_now g)"
proof -
  have "access_token (gw_log lv m g) = access_token g" and "exp (gw_log lv m g) = exp g"
    by (simp_all add: gw_log_def)
  then show ?thesis
    by (simp add: get_gateway_access_token_def fst_mint_gw_log
        split: option.splits list.splits)
qed

text \<open>
  The proxies the second loop returns: those of the descriptors that wrap, in
  the order of the listing; a descriptor that is skipped or fails changes
  nothing for the others.
\<close>

lemma fst_wrap_tools:
  "fst (wrap_tools decorator ts wrapped g) =
     wrapped @ List.map_filter
       (\<lambda>t. case wrap_desc decorator t of Inr (Some w) \<Rightarrow> Some w | _ \<Rightarrow> None) ts"
proof (induction ts arbitrary: wrapped g)
  case Nil
  show ?case
    by (simp add: List.map_filter_simps)
next
  case (Cons t ts)
  show ?case
    by (simp add: Cons.IH List.map_filter_simps split: sum.splits option.splits)
qed

text \<open>
  Whenever the token lookup returns, discovery returns a list: the empty one when
  no client can be made or the listing fails, and otherwise the proxies of the
  descriptors that wrap.
\<close>

lemma discover_gateway_tools_returns:
  assumes "fst (get_gateway_access_token cfg resp now mint_now g) = Inr token"
  shows "fst (discover_gateway_tools libs cfg resp now mint_now lst decorator g) =
     Inr (if \<not> libs \<or> GATEWAY_URL cfg = [] \<or> token = [] then []
          else case lst of
                 ListFailed \<Rightarrow> []
               | Listed tools \<Rightarrow>
                   List.map_filter
                     (\<lambda>t. case wrap_desc decorator t of Inr (Some w) \<Rightarrow> Some w | _ \<Rightarrow> None)
                     (case tools of None \<Rightarrow> [] | Some x \<Rightarrow> x))"
proof -
  let ?g0 = "gw_log DEBUG ''[gateway] attempting to discover available tools'' g"
  let ?g1 = "gw_log DEBUG ''[gateway] preparing MCP client'' ?g0"
  from assms have tok: "fst (get_gateway_access_token cfg resp now mint_now ?g1) = Inr token"
    by (simp add: fst_get_token_gw_log)
  then obtain g' where
    got: "get_gateway_access_token cfg resp now mint_now ?g1 = (Inr token, g')"
    by (cases "get_gateway_access_token cfg resp now mint_now ?g1") simp
  show ?thesis
  proof (cases "\<not> libs \<or> GATEWAY_URL cfg = [] \<or> token = []")
    case True
    with got show ?thesis
      by (auto simp: discover_gateway_tools_def mcp_client_or_none_def)
  next
    case False
    with got have client: "mcp_client_or_none libs cfg resp now mint_now ?g0 =
        (Inr (Some token), gw_log DEBUG ''[gateway] MCP client instantiated successfully'' g')"
      by (simp add: mcp_client_or_none_def)
    show ?thesis
    proof (cases lst)
      case ListFailed
      with False client show ?thesis
        by (simp add: discover_gateway_tools_def)
    next
      case (Listed tools)
      with False client show ?thesis
        by (simp add: discover_gateway_tools_def Let_def split: prod.splits)
          (metis append_Nil fst_conv fst_wrap_tools)
    qed
  qed
qed

text \<open>
  C8 at a failing input. No token is configured, the cache is empty, the
  libraries and the gateway URL are there, and the token endpoint answers with
  a good status and a body that is not JSON. \<open>resp.json()\<close> stands outside the
  \<open>try\<close> of \<open>_mint_cognito_token\<close>, and neither \<open>_mcp_client_or_none\<close> nor
  \<open>discover_gateway_tools\<close> catches around the token lookup: discovery raises,
  whatever the listing would have returned.
\<close>

theorem discover_gateway_tools_raises_on_malformed_token_body:
  "fst (discover_gateway_tools True
      \<lparr>GATEWAY_URL = lit ''https://gw/mcp'', GATEWAY_ACCESS_TOKEN = [],
       COGNITO_TOKEN_URL = lit ''https://idp/token'', COGNITO_CLIENT_ID = lit ''id'',
       COGNITO_CLIENT_SECRET = lit ''secret'', COGNITO_SCOPE = []\<rparr>
      BodyMalformed now mint_now lst decorator
      \<lparr>access_token = None, exp = 0, mint_requests = 0, gw_logs = []\<rparr>) =
     Inl (OtherException ''JSONDecodeError'')"
  by (simp add: discover_gateway_tools_def mcp_client_or_none_def get_gateway_access_token_def
      mint_cognito_token_def gw_log_def lit_def)


end
